theory Spec2Isabelle
  imports Complex_Main "HOL-Library.AList"
begin

section \<open>The JavaScript values the API server computes with\<close>

text \<open>
  A JavaScript string is a list of UTF-16 code units, each a natural number; the string
  operations of the source (\<open>trim\<close>, \<open>split\<close>, \<open>join\<close>, \<open>replace\<close>, \<open>parseInt\<close>) work
  on code units. The parameters of the API (query parameters, the environment variable,
  names and URLs) are kept as \<open>string\<close>, whose characters are the code units below 256,
  and are read as code units where the source parses them. A JavaScript number is kept
  as an integer where the source can only produce integers (\<open>parseInt\<close>, row ids, time
  values in milliseconds), together with the three non-finite values.
\<close>

type_synonym jsstring = "nat list"

definition codeUnit :: "char \<Rightarrow> nat" where
  "codeUnit c = of_char c"

definition codeUnits :: "string \<Rightarrow> jsstring" where
  "codeUnits s = map codeUnit s"

datatype jsnum = NaN | Num int | PosInfinity | NegInfinity

text \<open>
  \<open>isNaN\<close> on a number. \<open>Number.isFinite\<close> holds exactly for the values \<open>Num v\<close>; the
  model tests it with a case distinction that also yields \<open>v\<close>.
\<close>

fun isNaN :: "jsnum \<Rightarrow> bool" where
  "isNaN NaN = True"
| "isNaN _ = False"

text \<open>
  The conversion of a mathematical integer to a Number: exact below \<open>2^53\<close>, rounded to
  the nearest value with a 53-bit significand (ties to even) above, and infinite once the
  rounded magnitude reaches \<open>2^1024\<close>.
\<close>

function bitLength :: "int \<Rightarrow> nat" where
  "bitLength n = (if n \<le> 0 then 0 else Suc (bitLength (n div 2)))"
  by pat_completeness auto
termination
  by (relation "measure nat") auto

definition roundMagnitude :: "int \<Rightarrow> int" where
  "roundMagnitude m =
     (if m < 2 ^ 53 then m
      else let e = bitLength m - 53;
               q = m div 2 ^ e;
               r = m mod 2 ^ e;
               h = 2 ^ (e - 1);
               q' = (if h < r \<or> (r = h \<and> odd q) then q + 1 else q)
           in q' * 2 ^ e)"

definition toNumber :: "int \<Rightarrow> jsnum" where
  "toNumber v =
     (let m = roundMagnitude \<bar>v\<bar>
      in if 2 ^ 1024 \<le> m then (if v < 0 then NegInfinity else PosInfinity)
         else Num (if v < 0 then - m else m))"

text \<open>
  The white space and line terminators that \<open>trim\<close> and \<open>parseInt\<close> skip: TAB, LF, VT,
  FF, CR, SP, NBSP, the other space separators of Unicode (U+1680, U+2000 to U+200A,
  U+202F, U+205F, U+3000), LS, PS and the byte order mark U+FEFF.
\<close>

definition isWhiteSpace :: "nat \<Rightarrow> bool" where
  "isWhiteSpace u \<longleftrightarrow>
     u \<in> {0x09, 0x0A, 0x0B, 0x0C, 0x0D, 0x20, 0xA0, 0x1680, 0x2028, 0x2029, 0x202F, 0x205F,
          0x3000, 0xFEFF}
     \<or> (0x2000 \<le> u \<and> u \<le> 0x200A)"

definition trimStart :: "jsstring \<Rightarrow> jsstring" where
  "trimStart s = dropWhile isWhiteSpace s"

definition trimEnd :: "jsstring \<Rightarrow> jsstring" where
  "trimEnd s = rev (dropWhile isWhiteSpace (rev s))"

definition trim :: "jsstring \<Rightarrow> jsstring" where
  "trim s = trimEnd (trimStart s)"

text \<open>\<open>s.split(sep)\<close> for a separator of one code unit: never the empty array.\<close>

fun split :: "'a \<Rightarrow> 'a list \<Rightarrow> 'a list list" where
  "split sep [] = [[]]"
| "split sep (c # cs) =
     (if c = sep then [] # split sep cs
      else (c # hd (split sep cs)) # tl (split sep cs))"

text \<open>\<open>xs.join(sep)\<close>.\<close>

fun join :: "'a list \<Rightarrow> 'a list list \<Rightarrow> 'a list" where
  "join sep [] = []"
| "join sep [x] = x"
| "join sep (x # y # ys) = x @ sep @ join sep (y # ys)"

text \<open>
  \<open>parseInt(string, radix)\<close> on code units, with \<open>radix = 0\<close> for a call without radix:
  leading white space is skipped, one sign is read, a \<open>0x\<close> prefix selects radix 16 when
  the radix is absent or 16, and the longest prefix of digits of the radix is the value;
  no digit at all gives \<open>NaN\<close>.
\<close>

definition digitValue :: "nat \<Rightarrow> nat option" where
  "digitValue u =
     (if 48 \<le> u \<and> u \<le> 57 then Some (u - 48)
      else if 97 \<le> u \<and> u \<le> 122 then Some (u - 87)
      else if 65 \<le> u \<and> u \<le> 90 then Some (u - 55)
      else None)"

definition isRadixDigit :: "nat \<Rightarrow> nat \<Rightarrow> bool" where
  "isRadixDigit R u = (case digitValue u of Some d \<Rightarrow> d < R | None \<Rightarrow> False)"

definition digitsValue :: "nat \<Rightarrow> jsstring \<Rightarrow> int" where
  "digitsValue R z = foldl (\<lambda>acc u. acc * int R + int (the (digitValue u))) 0 z"

definition hasHexPrefix :: "jsstring \<Rightarrow> bool" where
  "hasHexPrefix s \<longleftrightarrow> take 2 s = codeUnits ''0x'' \<or> take 2 s = codeUnits ''0X''"

definition parseIntUnits :: "jsstring \<Rightarrow> nat \<Rightarrow> jsnum" where
  "parseIntUnits str radix =
     (let s0 = trimStart str;
          neg = (s0 \<noteq> [] \<and> hd s0 = codeUnit CHR ''-'');
          s1 = (if s0 \<noteq> [] \<and> (hd s0 = codeUnit CHR ''+'' \<or> hd s0 = codeUnit CHR ''-'')
                then tl s0 else s0)
      in if radix \<noteq> 0 \<and> (radix < 2 \<or> 36 < radix) then NaN
         else let stripPrefix = (radix = 0 \<or> radix = 16);
                  R0 = (if radix = 0 then 10 else radix);
                  hex = (stripPrefix \<and> hasHexPrefix s1);
                  s2 = (if hex then drop 2 s1 else s1);
                  R = (if hex then 16 else R0);
                  z = takeWhile (isRadixDigit R) s2
              in if z = [] then NaN
                 else toNumber ((if neg then - 1 else 1) * digitsValue R z))"

text \<open>\<open>parseInt\<close> on a parameter of the API.\<close>

definition parseInt :: "string \<Rightarrow> nat \<Rightarrow> jsnum" where
  "parseInt str radix = parseIntUnits (codeUnits str) radix"

section \<open>Proxy chains in the dashboard\<close>

text \<open>
  Modelled from the spec: the canonical chain string. The collector that builds it is
  not part of the sources; the spec gives \<open>chain = chains.join(" > ")\<close>.
\<close>

definition canonicalChain :: "jsstring list \<Rightarrow> jsstring" where
  "canonicalChain chainList = join (codeUnits '' > '') chainList"

text \<open>The segments both display functions compute: split at the \<open>>\<close> sign, trim, drop the empty ones.\<close>

definition chainParts :: "jsstring \<Rightarrow> jsstring list" where
  "chainParts chain =
     filter (\<lambda>part. part \<noteq> []) (map trim (split (codeUnit CHR ''>'') chain))"

text \<open>\<open>parts[0] || fallback\<close>.\<close>

definition firstOr :: "jsstring list \<Rightarrow> jsstring \<Rightarrow> jsstring" where
  "firstOr parts fallback =
     (case parts of [] \<Rightarrow> fallback | p # _ \<Rightarrow> if p = [] then fallback else p)"

definition getLandingProxy :: "jsstring \<Rightarrow> jsstring" where
  "getLandingProxy chain = firstOr (chainParts chain) chain"

text \<open>The two replacements of \<open>formatProxyName\<close>: \<open>/^\["?/\<close> and \<open>/"?\]$/\<close>.\<close>

definition stripOpening :: "jsstring \<Rightarrow> jsstring" where
  "stripOpening s =
     (if s \<noteq> [] \<and> hd s = codeUnit CHR ''[''
      then (if tl s \<noteq> [] \<and> hd (tl s) = codeUnit CHR 0x22 then tl (tl s) else tl s)
      else s)"

definition stripClosing :: "jsstring \<Rightarrow> jsstring" where
  "stripClosing s =
     (if s \<noteq> [] \<and> last s = codeUnit CHR '']''
      then (if butlast s \<noteq> [] \<and> last (butlast s) = codeUnit CHR 0x22
            then butlast (butlast s)
            else butlast s)
      else s)"

definition formatProxyName :: "jsstring \<Rightarrow> jsstring" where
  "formatProxyName name =
     (if name = [] then codeUnits ''DIRECT''
      else let normalized = trim (stripClosing (stripOpening name))
           in firstOr (chainParts normalized) normalized)"

section \<open>The runtime, requests and replies of the API server\<close>

text \<open>
  What the handlers read from their environment: the \<open>Date\<close> constructor followed by
  \<open>getTime()\<close> (\<open>None\<close> is \<open>NaN\<close>, an invalid date), \<open>toISOString\<close> on a time value,
  \<open>Date.now()\<close>, and the environment variable \<open>REALTIME_RANGE_END_TOLERANCE_MS\<close>.
\<close>

record runtime =
  dateParse :: "string \<Rightarrow> int option"
  toISOString :: "int \<Rightarrow> string"
  dateNow :: int
  envTolerance :: "string option"

text \<open>The query string parameters the helpers read; an absent parameter is \<open>None\<close>.\<close>

record query =
  q_backendId :: "string option"
  q_start :: "string option"
  q_end :: "string option"

record timeRange =
  tr_start :: "string option"
  tr_end :: "string option"
  tr_active :: bool

text \<open>
  A reply: the status code and the JSON body, which is either \<open>{error: message}\<close> or
  the data of the route. A handler that returns a value replies with status 200.
\<close>

datatype 'a payload = ErrorBody string | JsonBody 'a

datatype 'a response = Response (statusCode: nat) (payload: "'a payload")

definition sendError :: "nat \<times> string \<Rightarrow> 'a response" where
  "sendError e = Response (fst e) (ErrorBody (snd e))"

definition returned :: "'a \<Rightarrow> 'a response" where
  "returned v = Response 200 (JsonBody v)"

text \<open>\<open>!s\<close> is false exactly for a string that is present and not empty.\<close>

definition truthy :: "string option \<Rightarrow> bool" where
  "truthy s = (case s of None \<Rightarrow> False | Some v \<Rightarrow> v \<noteq> [])"

definition stringOf :: "string option \<Rightarrow> string" where
  "stringOf s = (case s of None \<Rightarrow> [] | Some v \<Rightarrow> v)"

section \<open>The Store\<close>

text \<open>
  Modelled from the spec: the Store (\<open>db.ts\<close> is not part of the sources). A backend
  row has the columns the API source reads (\<open>id\<close>, \<open>name\<close>, \<open>url\<close>, \<open>token\<close>,
  \<open>is_active\<close>, \<open>listening\<close>) and the remaining ones of the spec's data model; the
  retention configuration is the singleton row of the spec. The aggregate tables are
  represented by their windowed read queries, each returning its rows in the Store's
  order.
\<close>

record backend =
  b_id :: int
  b_name :: string
  b_url :: string
  b_token :: "string option"
  b_enabled :: bool
  b_listening :: bool
  b_is_active :: bool
  b_created_at :: string

record retentionConfig =
  connectionLogsDays :: real
  hourlyStatsDays :: real
  autoCleanup :: bool

record summary =
  totalConnections :: int
  totalUpload :: int
  totalDownload :: int
  uniqueDomains :: int
  uniqueIPs :: int

record traffic =
  upload :: int
  download :: int

record statRow =
  rowKey :: string
  rowUpload :: int
  rowDownload :: int
  rowConnections :: int

record store =
  backendRows :: "backend list"
  nextBackendId :: int
  retentionRow :: retentionConfig
  summaryQuery :: "jsnum \<Rightarrow> string option \<Rightarrow> string option \<Rightarrow> summary"
  domainQuery :: "jsnum \<Rightarrow> string option \<Rightarrow> string option \<Rightarrow> statRow list"
  ipQuery :: "jsnum \<Rightarrow> string option \<Rightarrow> string option \<Rightarrow> statRow list"
  proxyQuery :: "jsnum \<Rightarrow> string option \<Rightarrow> string option \<Rightarrow> statRow list"
  ruleQuery :: "jsnum \<Rightarrow> string option \<Rightarrow> string option \<Rightarrow> statRow list"
  hourlyQuery :: "jsnum \<Rightarrow> string option \<Rightarrow> string option \<Rightarrow> statRow list"
  trafficQuery :: "jsnum \<Rightarrow> string option \<Rightarrow> string option \<Rightarrow> traffic"

text \<open>
  Modelled from the spec: \<open>getActiveBackend\<close>, the row with \<open>isActive\<close> set (at most one
  per system), if there is one.
\<close>

definition getActiveBackend :: "store \<Rightarrow> backend option" where
  "getActiveBackend db = find b_is_active (backendRows db)"

text \<open>
  Modelled from the spec: \<open>getBackend\<close>, the row with the given id, if there is one; no
  row has a non-finite id.
\<close>

definition getBackend :: "store \<Rightarrow> jsnum \<Rightarrow> backend option" where
  "getBackend db n =
     (case n of Num i \<Rightarrow> find (\<lambda>b. b_id b = i) (backendRows db) | _ \<Rightarrow> None)"

text \<open>Modelled from the spec: \<open>getAllBackends\<close>, every backend row.\<close>

definition getAllBackends :: "store \<Rightarrow> backend list" where
  "getAllBackends db = backendRows db"

text \<open>Modelled from the spec: \<open>getListeningBackends\<close>, the rows with \<open>listening\<close> set.\<close>

definition getListeningBackends :: "store \<Rightarrow> backend list" where
  "getListeningBackends db = filter b_listening (backendRows db)"

text \<open>
  Modelled from the spec: the message of the database's unique-constraint error, in the
  form SQLite gives it.
\<close>

definition uniqueViolation :: string where
  "uniqueViolation = ''UNIQUE constraint failed: backend_configs.name''"

text \<open>
  Modelled from the spec: \<open>createBackend\<close>. The spec makes \<open>name\<close> unique; a second row
  with a name already present fails with the database's constraint error and leaves the
  table as it was. A new row gets the next id and is not active; the spec gives no
  default for \<open>enabled\<close>, \<open>listening\<close> and \<open>createdAt\<close>, which no result below reads.
\<close>

definition createBackend ::
    "store \<Rightarrow> string \<Rightarrow> string \<Rightarrow> string option \<Rightarrow> string + (int \<times> store)" where
  "createBackend db name url token =
     (if name \<in> set (map b_name (backendRows db)) then Inl uniqueViolation
      else Inr (nextBackendId db,
        db\<lparr>backendRows := backendRows db @
              [\<lparr>b_id = nextBackendId db, b_name = name, b_url = url, b_token = token,
                b_enabled = True, b_listening = True, b_is_active = False,
                b_created_at = []\<rparr>],
           nextBackendId := nextBackendId db + 1\<rparr>))"

text \<open>
  Modelled from the spec: \<open>setActiveBackend\<close>; setting a new active backend clears the
  others.
\<close>

definition setActiveBackend :: "store \<Rightarrow> int \<Rightarrow> store" where
  "setActiveBackend db i =
     db\<lparr>backendRows := map (\<lambda>b. b\<lparr>b_is_active := (b_id b = i)\<rparr>) (backendRows db)\<rparr>"

text \<open>Modelled from the spec: \<open>getSummary\<close>, the windowed totals of a backend.\<close>

definition getSummary :: "store \<Rightarrow> jsnum \<Rightarrow> string option \<Rightarrow> string option \<Rightarrow> summary" where
  "getSummary db n s e = summaryQuery db n s e"

text \<open>
  Modelled from the spec: \<open>getTopDomains\<close>, the first \<open>limit\<close> rows of the windowed
  domain aggregate (the summary lists 10).
\<close>

definition getTopDomains ::
    "store \<Rightarrow> jsnum \<Rightarrow> nat \<Rightarrow> string option \<Rightarrow> string option \<Rightarrow> statRow list" where
  "getTopDomains db n limit s e = take limit (domainQuery db n s e)"

text \<open>
  Modelled from the spec: \<open>getTopIPs\<close>, the first \<open>limit\<close> rows of the windowed IP
  aggregate (the summary lists 10).
\<close>

definition getTopIPs ::
    "store \<Rightarrow> jsnum \<Rightarrow> nat \<Rightarrow> string option \<Rightarrow> string option \<Rightarrow> statRow list" where
  "getTopIPs db n limit s e = take limit (ipQuery db n s e)"

text \<open>Modelled from the spec: \<open>getProxyStats\<close>, the windowed rows per proxy chain.\<close>

definition getProxyStats :: "store \<Rightarrow> jsnum \<Rightarrow> string option \<Rightarrow> string option \<Rightarrow> statRow list" where
  "getProxyStats db n s e = proxyQuery db n s e"

text \<open>Modelled from the spec: \<open>getRuleStats\<close>, the windowed rows per rule.\<close>

definition getRuleStats :: "store \<Rightarrow> jsnum \<Rightarrow> string option \<Rightarrow> string option \<Rightarrow> statRow list" where
  "getRuleStats db n s e = ruleQuery db n s e"

text \<open>
  Modelled from the spec: \<open>getHourlyStats\<close>, the first \<open>hours\<close> buckets of the windowed
  hourly series (the summary asks for 24).
\<close>

definition getHourlyStats ::
    "store \<Rightarrow> jsnum \<Rightarrow> nat \<Rightarrow> string option \<Rightarrow> string option \<Rightarrow> statRow list" where
  "getHourlyStats db n hours s e = take hours (hourlyQuery db n s e)"

text \<open>Modelled from the spec: \<open>getTrafficInRange\<close>, the windowed traffic of a backend.\<close>

definition getTrafficInRange :: "store \<Rightarrow> jsnum \<Rightarrow> string option \<Rightarrow> string option \<Rightarrow> traffic" where
  "getTrafficInRange db n s e = trafficQuery db n s e"

text \<open>The body of \<open>PUT /api/db/retention\<close>; a field that is not supplied is \<open>None\<close>.\<close>

record retentionUpdate =
  u_connectionLogsDays :: "real option"
  u_hourlyStatsDays :: "real option"
  u_autoCleanup :: "bool option"

text \<open>
  Modelled from the spec: \<open>updateRetentionConfig\<close> writes the fields that are supplied
  into the singleton row, keeps the others, and returns the row.
\<close>

definition updateRetentionConfig :: "store \<Rightarrow> retentionUpdate \<Rightarrow> retentionConfig \<times> store" where
  "updateRetentionConfig db u =
     (let old = retentionRow db;
          new = \<lparr>connectionLogsDays =
                   (case u_connectionLogsDays u of None \<Rightarrow> connectionLogsDays old | Some d \<Rightarrow> d),
                 hourlyStatsDays =
                   (case u_hourlyStatsDays u of None \<Rightarrow> hourlyStatsDays old | Some d \<Rightarrow> d),
                 autoCleanup =
                   (case u_autoCleanup u of None \<Rightarrow> autoCleanup old | Some a \<Rightarrow> a)\<rparr>
      in (new, db\<lparr>retentionRow := new\<rparr>))"

section \<open>The Realtime Cache\<close>

text \<open>
  Modelled from the spec: the Realtime Cache (\<open>realtime.ts\<close> is not part of the
  sources). Each backend has a bucket of pending deltas: the pending totals, the pending
  rows of the domain, IP and proxy dimensions, and \<open>todayDelta\<close>.
\<close>

record bucket =
  pendingConnections :: int
  pendingUpload :: int
  pendingDownload :: int
  pendingDomains :: "statRow list"
  pendingIPs :: "statRow list"
  pendingProxies :: "statRow list"
  todayDelta :: traffic

type_synonym realtimeStore = "jsnum \<Rightarrow> bucket"

text \<open>
  Modelled from the spec: \<open>applySummaryDelta\<close> returns the Store's summary with the
  totals incremented by the cached aggregates.
\<close>

definition applySummaryDelta :: "realtimeStore \<Rightarrow> jsnum \<Rightarrow> summary \<Rightarrow> summary" where
  "applySummaryDelta cache n s =
     s\<lparr>totalConnections := totalConnections s + pendingConnections (cache n),
       totalUpload := totalUpload s + pendingUpload (cache n),
       totalDownload := totalDownload s + pendingDownload (cache n)\<rparr>"

text \<open>
  Modelled from the spec: the additive merge of one cached row into a list of rows, by
  key; a key the list does not have is appended.
\<close>

fun addRow :: "statRow \<Rightarrow> statRow list \<Rightarrow> statRow list" where
  "addRow r [] = [r]"
| "addRow r (x # xs) =
     (if rowKey x = rowKey r
      then x\<lparr>rowUpload := rowUpload x + rowUpload r,
             rowDownload := rowDownload x + rowDownload r,
             rowConnections := rowConnections x + rowConnections r\<rparr> # xs
      else x # addRow r xs)"

text \<open>
  Modelled from the spec: the common part of the \<open>merge*\<close> functions, which consume the
  Store's list, merge the cached rows additively and sort again; the spec does not name
  the order, the model sorts by download, descending.
\<close>

definition mergeRows :: "statRow list \<Rightarrow> statRow list \<Rightarrow> statRow list" where
  "mergeRows dbRows cached =
     sort_key (\<lambda>r. - rowDownload r) (foldl (\<lambda>acc r. addRow r acc) dbRows cached)"

text \<open>Modelled from the spec: \<open>mergeTopDomains\<close>, merged and truncated to \<open>topN\<close>.\<close>

definition mergeTopDomains :: "realtimeStore \<Rightarrow> jsnum \<Rightarrow> statRow list \<Rightarrow> nat \<Rightarrow> statRow list" where
  "mergeTopDomains cache n dbRows limit = take limit (mergeRows dbRows (pendingDomains (cache n)))"

text \<open>Modelled from the spec: \<open>mergeTopIPs\<close>, merged and truncated to \<open>topN\<close>.\<close>

definition mergeTopIPs :: "realtimeStore \<Rightarrow> jsnum \<Rightarrow> statRow list \<Rightarrow> nat \<Rightarrow> statRow list" where
  "mergeTopIPs cache n dbRows limit = take limit (mergeRows dbRows (pendingIPs (cache n)))"

text \<open>Modelled from the spec: \<open>mergeProxyStats\<close>, merged, without a limit.\<close>

definition mergeProxyStats :: "realtimeStore \<Rightarrow> jsnum \<Rightarrow> statRow list \<Rightarrow> statRow list" where
  "mergeProxyStats cache n dbRows = mergeRows dbRows (pendingProxies (cache n))"

text \<open>Modelled from the spec: \<open>getTodayDelta\<close>, the day-scoped pending sum.\<close>

definition getTodayDelta :: "realtimeStore \<Rightarrow> jsnum \<Rightarrow> traffic" where
  "getTodayDelta cache n = todayDelta (cache n)"

section \<open>The helpers of the API server\<close>

text \<open>
  \<open>getBackendId\<close>: the \<open>backendId\<close> parameter when it is present and not empty
  (\<open>null\<close> when \<open>parseInt\<close> gives \<open>NaN\<close>), otherwise the id of the active backend.
\<close>

definition getBackendId :: "store \<Rightarrow> query \<Rightarrow> jsnum option" where
  "getBackendId db q =
     (if truthy (q_backendId q)
      then (let n = parseInt (stringOf (q_backendId q)) 0
            in if isNaN n then None else Some n)
      else (case getActiveBackend db of
              None \<Rightarrow> None
            | Some activeBackend \<Rightarrow> Some (Num (b_id activeBackend))))"

text \<open>
  \<open>getTimeRange\<close>: \<open>Inl\<close> is the reply the helper has sent itself (it then returns
  \<open>null\<close>), \<open>Inr\<close> the time range it returns.
\<close>

definition getTimeRange :: "runtime \<Rightarrow> query \<Rightarrow> (nat \<times> string) + timeRange" where
  "getTimeRange rt q =
     (if \<not> truthy (q_start q) \<and> \<not> truthy (q_end q)
      then Inr \<lparr>tr_start = None, tr_end = None, tr_active = False\<rparr>
      else if \<not> truthy (q_start q) \<or> \<not> truthy (q_end q)
      then Inl (400, ''Both start and end must be provided together'')
      else (case (dateParse rt (stringOf (q_start q)), dateParse rt (stringOf (q_end q))) of
              (Some startDate, Some endDate) \<Rightarrow>
                if startDate > endDate
                then Inl (400, ''start must be less than or equal to end'')
                else Inr \<lparr>tr_start = Some (toISOString rt startDate),
                          tr_end = Some (toISOString rt endDate),
                          tr_active = True\<rparr>
            | _ \<Rightarrow> Inl (400, ''Invalid time range format, expected ISO datetime'')))"

text \<open>
  \<open>shouldIncludeRealtime\<close>. The subtraction and the comparison are on integers; the
  doubles of the source compute them exactly while the magnitudes stay below \<open>2^53\<close>,
  which every time value does.
\<close>

definition shouldIncludeRealtime :: "runtime \<Rightarrow> timeRange \<Rightarrow> bool" where
  "shouldIncludeRealtime rt tr =
     (if \<not> tr_active tr then True
      else if \<not> truthy (tr_end tr) then False
      else (case dateParse rt (stringOf (tr_end tr)) of
              None \<Rightarrow> False
            | Some endMs \<Rightarrow>
                let toleranceMs =
                      parseInt (if truthy (envTolerance rt) then stringOf (envTolerance rt)
                                else ''120000'') 10;
                    windowMs = (case toleranceMs of Num t \<Rightarrow> max 10000 t | _ \<Rightarrow> 120000)
                in endMs \<ge> dateNow rt - windowMs))"

section \<open>The statistics routes\<close>

record backendInfo =
  i_id :: int
  i_name :: string
  i_isActive :: bool
  i_listening :: bool

record summaryReply =
  r_backend :: backendInfo
  r_totalConnections :: int
  r_totalUpload :: int
  r_totalDownload :: int
  r_totalDomains :: int
  r_totalIPs :: int
  r_totalRules :: nat
  r_totalProxies :: nat
  r_todayUpload :: int
  r_todayDownload :: int
  r_topDomains :: "statRow list"
  r_topIPs :: "statRow list"
  r_proxyStats :: "statRow list"
  r_ruleStats :: "statRow list"
  r_hourlyStats :: "statRow list"

text \<open>\<open>GET /api/stats/summary\<close>.\<close>

definition get_stats_summary ::
    "runtime \<Rightarrow> store \<Rightarrow> realtimeStore \<Rightarrow> query \<Rightarrow> summaryReply response" where
  "get_stats_summary rt db cache q =
     (let backendId = getBackendId db q
      in case getTimeRange rt q of
           Inl sent \<Rightarrow> sendError sent
         | Inr timeRange \<Rightarrow>
            (case backendId of
               None \<Rightarrow> sendError (404, ''No backend specified or active'')
             | Some n \<Rightarrow>
                (case getBackend db n of
                   None \<Rightarrow> sendError (404, ''Backend not found'')
                 | Some backend \<Rightarrow>
                    let includeRealtime = shouldIncludeRealtime rt timeRange;
                        s = tr_start timeRange;
                        e = tr_end timeRange;
                        summary = getSummary db n s e;
                        summaryWithRealtime =
                          (if includeRealtime then applySummaryDelta cache n summary
                           else summary);
                        dbTopDomains = getTopDomains db n 10 s e;
                        topDomains =
                          (if includeRealtime then mergeTopDomains cache n dbTopDomains 10
                           else dbTopDomains);
                        dbTopIPs = getTopIPs db n 10 s e;
                        topIPs =
                          (if includeRealtime then mergeTopIPs cache n dbTopIPs 10
                           else dbTopIPs);
                        dbProxyStats = getProxyStats db n s e;
                        proxyStats =
                          (if includeRealtime then mergeProxyStats cache n dbProxyStats
                           else dbProxyStats);
                        ruleStats = getRuleStats db n s e;
                        hourlyStats = getHourlyStats db n 24 s e;
                        todayTraffic = getTrafficInRange db n s e;
                        todayDelta =
                          (if includeRealtime then getTodayDelta cache n
                           else \<lparr>upload = 0, download = 0\<rparr>)
                    in returned
                         \<lparr>r_backend = \<lparr>i_id = b_id backend, i_name = b_name backend,
                                       i_isActive = b_is_active backend,
                                       i_listening = b_listening backend\<rparr>,
                          r_totalConnections = totalConnections summaryWithRealtime,
                          r_totalUpload = totalUpload summaryWithRealtime,
                          r_totalDownload = totalDownload summaryWithRealtime,
                          r_totalDomains = uniqueDomains summary,
                          r_totalIPs = uniqueIPs summary,
                          r_totalRules = length ruleStats,
                          r_totalProxies = length proxyStats,
                          r_todayUpload = upload todayTraffic + upload todayDelta,
                          r_todayDownload = download todayTraffic + download todayDelta,
                          r_topDomains = topDomains,
                          r_topIPs = topIPs,
                          r_proxyStats = proxyStats,
                          r_ruleStats = ruleStats,
                          r_hourlyStats = hourlyStats\<rparr>)))"

text \<open>\<open>GET /api/stats/proxies\<close>.\<close>

definition get_stats_proxies ::
    "runtime \<Rightarrow> store \<Rightarrow> realtimeStore \<Rightarrow> query \<Rightarrow> statRow list response" where
  "get_stats_proxies rt db cache q =
     (let backendId = getBackendId db q
      in case getTimeRange rt q of
           Inl sent \<Rightarrow> sendError sent
         | Inr timeRange \<Rightarrow>
            (case backendId of
               None \<Rightarrow> sendError (404, ''No backend specified or active'')
             | Some n \<Rightarrow>
                let stats = getProxyStats db n (tr_start timeRange) (tr_end timeRange)
                in if shouldIncludeRealtime rt timeRange
                   then returned (mergeProxyStats cache n stats)
                   else returned stats))"

text \<open>\<open>GET /api/stats/rules\<close>, a route without overlay.\<close>

definition get_stats_rules :: "runtime \<Rightarrow> store \<Rightarrow> query \<Rightarrow> statRow list response" where
  "get_stats_rules rt db q =
     (let backendId = getBackendId db q
      in case getTimeRange rt q of
           Inl sent \<Rightarrow> sendError sent
         | Inr timeRange \<Rightarrow>
            (case backendId of
               None \<Rightarrow> sendError (404, ''No backend specified or active'')
             | Some n \<Rightarrow> returned (getRuleStats db n (tr_start timeRange) (tr_end timeRange))))"

text \<open>
  The three other routes that consult \<open>shouldIncludeRealtime\<close>. The Store's
  \<open>getCountryStats\<close>, \<open>getTrafficTrend\<close> and \<open>getTrafficTrendAggregated\<close> and the
  cache's \<open>mergeCountryStats\<close> and \<open>mergeTrend\<close> are parameters of the model: their code
  is not part of the sources, and the results below hold whatever they compute.
\<close>

text \<open>\<open>n || d\<close> on numbers: \<open>d\<close> replaces \<open>NaN\<close> and zero.\<close>

definition orDefault :: "jsnum \<Rightarrow> int \<Rightarrow> jsnum" where
  "orDefault n d = (if isNaN n \<or> n = Num 0 then Num d else n)"

text \<open>
  \<open>const { minutes = d } = request.query; parseInt(minutes) || d\<close>: an absent parameter
  is the number \<open>d\<close> itself, which \<open>parseInt\<close> reads back.
\<close>

definition numberParam :: "string option \<Rightarrow> int \<Rightarrow> jsnum" where
  "numberParam p d = (case p of None \<Rightarrow> Num d | Some v \<Rightarrow> orDefault (parseInt v 0) d)"

text \<open>\<open>GET /api/stats/countries\<close>, with its \<open>limit\<close> parameter.\<close>

definition get_stats_countries ::
    "(jsnum \<Rightarrow> jsnum \<Rightarrow> string option \<Rightarrow> string option \<Rightarrow> 'r) \<Rightarrow> (jsnum \<Rightarrow> 'r \<Rightarrow> 'r) \<Rightarrow>
     runtime \<Rightarrow> store \<Rightarrow> query \<Rightarrow> string option \<Rightarrow> 'r response" where
  "get_stats_countries getCountryStats mergeCountryStats rt db q limit =
     (let backendId = getBackendId db q
      in case getTimeRange rt q of
           Inl sent \<Rightarrow> sendError sent
         | Inr timeRange \<Rightarrow>
            (case backendId of
               None \<Rightarrow> sendError (404, ''No backend specified or active'')
             | Some n \<Rightarrow>
                let stats = getCountryStats n
                              (parseInt (if truthy limit then stringOf limit else ''50'') 10)
                              (tr_start timeRange) (tr_end timeRange)
                in if shouldIncludeRealtime rt timeRange
                   then returned (mergeCountryStats n stats)
                   else returned stats))"

text \<open>\<open>GET /api/stats/trend\<close>, with its \<open>minutes\<close> parameter.\<close>

definition get_stats_trend ::
    "(jsnum \<Rightarrow> jsnum \<Rightarrow> string option \<Rightarrow> string option \<Rightarrow> 'r) \<Rightarrow>
     (jsnum \<Rightarrow> 'r \<Rightarrow> jsnum \<Rightarrow> jsnum \<Rightarrow> 'r) \<Rightarrow>
     runtime \<Rightarrow> store \<Rightarrow> query \<Rightarrow> string option \<Rightarrow> 'r response" where
  "get_stats_trend getTrafficTrend mergeTrend rt db q minutes =
     (let backendId = getBackendId db q
      in case getTimeRange rt q of
           Inl sent \<Rightarrow> sendError sent
         | Inr timeRange \<Rightarrow>
            (case backendId of
               None \<Rightarrow> sendError (404, ''No backend specified or active'')
             | Some n \<Rightarrow>
                let windowMinutes = numberParam minutes 30;
                    base = getTrafficTrend n windowMinutes (tr_start timeRange) (tr_end timeRange)
                in if \<not> shouldIncludeRealtime rt timeRange
                   then returned base
                   else returned (mergeTrend n base windowMinutes (Num 1))))"

text \<open>\<open>GET /api/stats/trend/aggregated\<close>, with \<open>minutes\<close> and \<open>bucketMinutes\<close>.\<close>

definition get_stats_trend_aggregated ::
    "(jsnum \<Rightarrow> jsnum \<Rightarrow> jsnum \<Rightarrow> string option \<Rightarrow> string option \<Rightarrow> 'r) \<Rightarrow>
     (jsnum \<Rightarrow> 'r \<Rightarrow> jsnum \<Rightarrow> jsnum \<Rightarrow> 'r) \<Rightarrow>
     runtime \<Rightarrow> store \<Rightarrow> query \<Rightarrow> string option \<Rightarrow> string option \<Rightarrow> 'r response" where
  "get_stats_trend_aggregated getTrafficTrendAggregated mergeTrend rt db q minutes bucketMinutes =
     (let backendId = getBackendId db q
      in case getTimeRange rt q of
           Inl sent \<Rightarrow> sendError sent
         | Inr timeRange \<Rightarrow>
            (case backendId of
               None \<Rightarrow> sendError (404, ''No backend specified or active'')
             | Some n \<Rightarrow>
                let windowMinutes = numberParam minutes 30;
                    bucket = numberParam bucketMinutes 1;
                    base = getTrafficTrendAggregated n windowMinutes bucket
                             (tr_start timeRange) (tr_end timeRange)
                in if \<not> shouldIncludeRealtime rt timeRange
                   then returned base
                   else returned (mergeTrend n base windowMinutes bucket)))"

section \<open>The backend routes\<close>

text \<open>
  A JSON object is a list of fields in order. \<open>toObject\<close> is the row of a backend as the
  Store hands it to the routes.
\<close>

datatype jsval = JNull | JBool bool | JNumber int | JString string

type_synonym jsobj = "(string \<times> jsval) list"

definition toObject :: "backend \<Rightarrow> jsobj" where
  "toObject b =
     [(''id'', JNumber (b_id b)), (''name'', JString (b_name b)), (''url'', JString (b_url b)),
      (''token'', (case b_token b of None \<Rightarrow> JNull | Some t \<Rightarrow> JString t)),
      (''enabled'', JBool (b_enabled b)), (''listening'', JBool (b_listening b)),
      (''is_active'', JBool (b_is_active b)), (''created_at'', JString (b_created_at b))]"

text \<open>\<open>!!v\<close> for a field that may be absent.\<close>

fun toBoolean :: "jsval option \<Rightarrow> bool" where
  "toBoolean None = False"
| "toBoolean (Some JNull) = False"
| "toBoolean (Some (JBool b)) = b"
| "toBoolean (Some (JNumber n)) = (n \<noteq> 0)"
| "toBoolean (Some (JString s)) = (s \<noteq> [])"

text \<open>\<open>({ token, ...rest }) => ({ ...rest, hasToken: !!token })\<close>.\<close>

definition elideToken :: "jsobj \<Rightarrow> jsobj" where
  "elideToken obj =
     (let token = map_of obj ''token'';
          rest = AList.delete ''token'' obj
      in AList.update ''hasToken'' (JBool (toBoolean token)) rest)"

text \<open>\<open>GET /api/backends\<close>, \<open>GET /api/backends/active\<close>, \<open>GET /api/backends/listening\<close>.\<close>

definition get_backends :: "store \<Rightarrow> jsobj list response" where
  "get_backends db = returned (map (\<lambda>b. elideToken (toObject b)) (getAllBackends db))"

definition get_backends_active :: "store \<Rightarrow> jsobj response" where
  "get_backends_active db =
     (case getActiveBackend db of
        None \<Rightarrow> Response 200 (ErrorBody ''No active backend configured'')
      | Some backend \<Rightarrow> returned (elideToken (toObject backend)))"

definition get_backends_listening :: "store \<Rightarrow> jsobj list response" where
  "get_backends_listening db =
     returned (map (\<lambda>b. elideToken (toObject b)) (getListeningBackends db))"

text \<open>
  \<open>POST /api/backends\<close>. An error of the Store other than the unique constraint is thrown
  again; the framework then replies with status 500 and \<open>error: "Internal Server Error"\<close>.
\<close>

record createBody =
  c_name :: "string option"
  c_url :: "string option"
  c_token :: "string option"

record created =
  n_id :: int
  n_isActive :: bool
  n_message :: string

fun includesStr :: "string \<Rightarrow> string \<Rightarrow> bool" where
  "includesStr [] pat = (pat = [])"
| "includesStr (c # cs) pat = (take (length pat) (c # cs) = pat \<or> includesStr cs pat)"

definition post_backends :: "store \<Rightarrow> createBody \<Rightarrow> created response \<times> store" where
  "post_backends db body =
     (if \<not> truthy (c_name body) \<or> \<not> truthy (c_url body)
      then (sendError (400, ''Name and URL are required''), db)
      else let existingBackends = getAllBackends db;
               isFirstBackend = (length existingBackends = 0)
           in case createBackend db (stringOf (c_name body)) (stringOf (c_url body))
                     (c_token body) of
                Inr (i, db') \<Rightarrow>
                  (returned \<lparr>n_id = i, n_isActive = isFirstBackend,
                              n_message = ''Backend created successfully''\<rparr>,
                   if isFirstBackend then setActiveBackend db' i else db')
              | Inl message \<Rightarrow>
                  if includesStr message ''UNIQUE constraint failed''
                  then (sendError (409, ''Backend name already exists''), db)
                  else (sendError (500, ''Internal Server Error''), db))"

section \<open>The database routes\<close>

text \<open>
  \<open>POST /api/db/cleanup\<close>. \<open>days\<close> is \<open>None\<close> when the body carries no number there. The
  Store's \<open>cleanupOldData\<close> and the cache's \<open>clearBackend\<close> are parameters of the model:
  their code is not part of the sources and the results below do not reach them.
\<close>

record cleanupBody =
  d_days :: "real option"
  d_backendId :: "int option"

record cleanupResult =
  deletedConnections :: int
  deletedDomains :: int
  deletedIPs :: int
  deletedProxies :: int
  deletedRules :: int

datatype cleanupReply = CleanedAll cleanupResult | CleanedOld int

definition post_db_cleanup ::
    "(store \<Rightarrow> int option \<Rightarrow> real \<Rightarrow> cleanupResult \<times> store) \<Rightarrow>
     (realtimeStore \<Rightarrow> int \<Rightarrow> realtimeStore) \<Rightarrow>
     store \<Rightarrow> realtimeStore \<Rightarrow> cleanupBody \<Rightarrow> cleanupReply response \<times> store \<times> realtimeStore" where
  "post_db_cleanup cleanupOldData clearBackend db cache body =
     (case d_days body of
        None \<Rightarrow> (Response 200 (ErrorBody ''Valid days parameter required''), db, cache)
      | Some days \<Rightarrow>
          if days < 0
          then (Response 200 (ErrorBody ''Valid days parameter required''), db, cache)
          else let backendId = (case d_backendId body of
                                  None \<Rightarrow> None
                                | Some i \<Rightarrow> if i = 0 then None else Some i);
                   (result, db') = cleanupOldData db backendId days
               in if days = 0
                  then (returned (CleanedAll result), db',
                        (case backendId of
                           Some i \<Rightarrow> clearBackend cache i
                         | None \<Rightarrow> foldl clearBackend cache (map b_id (getAllBackends db'))))
                  else (returned (CleanedOld (deletedConnections result)), db', cache))"

text \<open>\<open>PUT /api/db/retention\<close>.\<close>

record retentionReply =
  t_message :: string
  t_config :: retentionConfig

definition put_db_retention :: "store \<Rightarrow> retentionUpdate \<Rightarrow> retentionReply response \<times> store" where
  "put_db_retention db body =
     (if (case u_connectionLogsDays body of None \<Rightarrow> False | Some d \<Rightarrow> d < 1 \<or> d > 90)
      then (sendError (400, ''connectionLogsDays must be between 1 and 90''), db)
      else if (case u_hourlyStatsDays body of None \<Rightarrow> False | Some d \<Rightarrow> d < 7 \<or> d > 365)
      then (sendError (400, ''hourlyStatsDays must be between 7 and 365''), db)
      else let (newConfig, db') = updateRetentionConfig db body
           in (returned \<lparr>t_message = ''Retention configuration updated'',
                          t_config = newConfig\<rparr>, db'))"

section \<open>The realtime tolerance in the spec's words\<close>

text \<open>
  The tolerance as the spec words it: the value of \<open>REALTIME_RANGE_END_TOLERANCE_MS\<close>
  when it parses to a finite number, clamped below at 10000, and 120000 otherwise.
\<close>

definition specTolerance :: "string option \<Rightarrow> int" where
  "specTolerance env =
     (case env of
        None \<Rightarrow> 120000
      | Some s \<Rightarrow> (case parseInt s 10 of Num t \<Rightarrow> max 10000 t | _ \<Rightarrow> 120000))"

text \<open>The end of a window is within the tolerance of now.\<close>

definition withinTolerance :: "runtime \<Rightarrow> int \<Rightarrow> bool" where
  "withinTolerance rt endMs \<longleftrightarrow> dateNow rt - specTolerance (envTolerance rt) \<le> endMs"

section \<open>ISO-8601 date-times in the spec's words\<close>

text \<open>
  The syntax the spec names for \<open>start\<close> and \<open>end\<close>: an ISO-8601 date-time, in the
  profile JavaScript prints and reads. A date is \<open>YYYY\<close>, \<open>YYYY-MM\<close> or \<open>YYYY-MM-DD\<close>
  (or a signed year of six digits); a time is \<open>HH:mm\<close>, \<open>HH:mm:ss\<close> or \<open>HH:mm:ss\<close> with
  a fraction; the offset is absent, \<open>Z\<close> or a sign and \<open>HH:mm\<close>.
\<close>

definition isDigit :: "char \<Rightarrow> bool" where
  "isDigit c \<longleftrightarrow> 48 \<le> codeUnit c \<and> codeUnit c \<le> 57"

definition digitsOfLength :: "nat \<Rightarrow> string \<Rightarrow> bool" where
  "digitsOfLength k s \<longleftrightarrow> length s = k \<and> list_all isDigit s"

definition isSign :: "char \<Rightarrow> bool" where
  "isSign c \<longleftrightarrow> c = CHR ''+'' \<or> c = CHR ''-''"

definition isoYear :: "bool \<Rightarrow> string \<Rightarrow> bool" where
  "isoYear signed y = (if signed then digitsOfLength 6 y else digitsOfLength 4 y)"

definition isoDate :: "string \<Rightarrow> bool" where
  "isoDate d =
     (let signed = (d \<noteq> [] \<and> isSign (hd d));
          fields = split CHR ''-'' (if signed then tl d else d)
      in case fields of
           [y] \<Rightarrow> isoYear signed y
         | [y, m] \<Rightarrow> isoYear signed y \<and> digitsOfLength 2 m
         | [y, m, dd] \<Rightarrow> isoYear signed y \<and> digitsOfLength 2 m \<and> digitsOfLength 2 dd
         | _ \<Rightarrow> False)"

definition isoSeconds :: "string \<Rightarrow> bool" where
  "isoSeconds s =
     (case split CHR ''.'' s of
        [ss] \<Rightarrow> digitsOfLength 2 ss
      | [ss, fraction] \<Rightarrow> digitsOfLength 2 ss \<and> fraction \<noteq> [] \<and> list_all isDigit fraction
      | _ \<Rightarrow> False)"

definition isoTime :: "string \<Rightarrow> bool" where
  "isoTime t =
     (case split CHR '':'' t of
        [h, m] \<Rightarrow> digitsOfLength 2 h \<and> digitsOfLength 2 m
      | [h, m, s] \<Rightarrow> digitsOfLength 2 h \<and> digitsOfLength 2 m \<and> isoSeconds s
      | _ \<Rightarrow> False)"

definition isoOffset :: "string \<Rightarrow> bool" where
  "isoOffset z =
     (z = [] \<or> z = ''Z''
      \<or> (isSign (hd z)
          \<and> (case split CHR '':'' (tl z) of
                [h, m] \<Rightarrow> digitsOfLength 2 h \<and> digitsOfLength 2 m
              | _ \<Rightarrow> False)))"

definition isoDateTime :: "string \<Rightarrow> bool" where
  "isoDateTime s =
     (case split CHR ''T'' s of
        [d] \<Rightarrow> isoDate d
      | [d, rest] \<Rightarrow>
          isoDate d
          \<and> isoTime (takeWhile (\<lambda>c. c \<noteq> CHR ''Z'' \<and> \<not> isSign c) rest)
          \<and> isoOffset (dropWhile (\<lambda>c. c \<noteq> CHR ''Z'' \<and> \<not> isSign c) rest)
      | _ \<Rightarrow> False)"

section \<open>A concrete scenario\<close>

text \<open>
  Scenario S4 of the spec: backend 1, the Store holds \<open>download = 1000\<close>, the cache a
  pending \<open>download = 250\<close>; now is 2024-01-01T00:05:00Z. The runtime knows the four
  instants the scenario uses.
\<close>

definition exampleDates :: "(string \<times> int) list" where
  "exampleDates =
     [(''2023-12-31T23:50:00.000Z'', 1704066600000),
      (''2023-12-31T23:55:00.000Z'', 1704066900000),
      (''2024-01-01T00:00:00.000Z'', 1704067200000),
      (''2024-01-01T00:05:00.000Z'', 1704067500000)]"

definition exampleRuntime :: runtime where
  "exampleRuntime =
     \<lparr>dateParse = map_of exampleDates,
      toISOString = (\<lambda>t. case find (\<lambda>p. snd p = t) exampleDates of
                            None \<Rightarrow> [] | Some p \<Rightarrow> fst p),
      dateNow = 1704067500000,
      envTolerance = None\<rparr>"

definition exampleBackend :: backend where
  "exampleBackend =
     \<lparr>b_id = 1, b_name = ''b'', b_url = ''ws://router:9090'', b_token = Some ''secret'',
      b_enabled = True, b_listening = True, b_is_active = True,
      b_created_at = ''2023-12-01T00:00:00.000Z''\<rparr>"

definition exampleRows :: "statRow list" where
  "exampleRows =
     [\<lparr>rowKey = ''a.example'', rowUpload = 300, rowDownload = 700, rowConnections = 5\<rparr>,
      \<lparr>rowKey = ''b.example'', rowUpload = 100, rowDownload = 300, rowConnections = 2\<rparr>]"

definition exampleStore :: store where
  "exampleStore =
     \<lparr>backendRows = [exampleBackend],
      nextBackendId = 2,
      retentionRow = \<lparr>connectionLogsDays = 7, hourlyStatsDays = 30, autoCleanup = True\<rparr>,
      summaryQuery = (\<lambda>n s e. \<lparr>totalConnections = 7, totalUpload = 400, totalDownload = 1000,
                                uniqueDomains = 2, uniqueIPs = 2\<rparr>),
      domainQuery = (\<lambda>n s e. exampleRows),
      ipQuery = (\<lambda>n s e. exampleRows),
      proxyQuery = (\<lambda>n s e. exampleRows),
      ruleQuery = (\<lambda>n s e. exampleRows),
      hourlyQuery = (\<lambda>n s e. exampleRows),
      trafficQuery = (\<lambda>n s e. \<lparr>upload = 400, download = 1000\<rparr>)\<rparr>"

definition emptyStore :: store where
  "emptyStore = exampleStore\<lparr>backendRows := [], nextBackendId := 1\<rparr>"

definition exampleCache :: realtimeStore where
  "exampleCache =
     (\<lambda>n. \<lparr>pendingConnections = 1, pendingUpload = 50, pendingDownload = 250,
           pendingDomains =
             [\<lparr>rowKey = ''a.example'', rowUpload = 50, rowDownload = 250, rowConnections = 1\<rparr>],
           pendingIPs = [],
           pendingProxies =
             [\<lparr>rowKey = ''b.example'', rowUpload = 50, rowDownload = 250, rowConnections = 1\<rparr>],
           todayDelta = \<lparr>upload = 50, download = 250\<rparr>\<rparr>)"

definition recentQuery :: query where
  "recentQuery =
     \<lparr>q_backendId = Some ''1'', q_start = Some ''2024-01-01T00:00:00.000Z'',
      q_end = Some ''2024-01-01T00:05:00.000Z''\<rparr>"

definition historicalQuery :: query where
  "historicalQuery =
     \<lparr>q_backendId = Some ''1'', q_start = Some ''2023-12-31T23:50:00.000Z'',
      q_end = Some ''2023-12-31T23:55:00.000Z''\<rparr>"

definition openQuery :: query where
  "openQuery = \<lparr>q_backendId = Some ''1'', q_start = None, q_end = None\<rparr>"

text \<open>Requests that fail the validation of the time range, without a backend id.\<close>

definition startOnlyQuery :: query where
  "startOnlyQuery =
     \<lparr>q_backendId = None, q_start = Some ''2024-01-01T00:00:00.000Z'', q_end = None\<rparr>"

definition malformedQuery :: query where
  "malformedQuery =
     \<lparr>q_backendId = None, q_start = Some ''yesterday'',
      q_end = Some ''2024-01-01T00:05:00.000Z''\<rparr>"

definition reversedQuery :: query where
  "reversedQuery =
     \<lparr>q_backendId = None, q_start = Some ''2024-01-01T00:05:00.000Z'',
      q_end = Some ''2024-01-01T00:00:00.000Z''\<rparr>"

text \<open>
  A runtime whose \<open>Date\<close> constructor reads \<open>"1"\<close> and \<open>"2"\<close> the way V8 does, as the
  first of January and of February 2001 (here in UTC), and a request with these values.
\<close>

definition legacyDates :: "(string \<times> int \<times> string) list" where
  "legacyDates =
     [(''1'', 978307200000, ''2001-01-01T00:00:00.000Z''),
      (''2'', 980985600000, ''2001-02-01T00:00:00.000Z'')]"

definition legacyRuntime :: runtime where
  "legacyRuntime =
     \<lparr>dateParse = (\<lambda>s. map_option fst (map_of legacyDates s)),
      toISOString = (\<lambda>t. case find (\<lambda>p. fst (snd p) = t) legacyDates of
                            None \<Rightarrow> [] | Some p \<Rightarrow> snd (snd p)),
      dateNow = 1704067500000,
      envTolerance = None\<rparr>"

definition legacyQuery :: query where
  "legacyQuery = \<lparr>q_backendId = Some ''1'', q_start = Some ''1'', q_end = Some ''2''\<rparr>"

text \<open>
  Stand-ins for the functions of the Store and the cache that the country and trend
  routes take as parameters; the cache's merge marks the rows it has touched.
\<close>

definition exampleSeries :: "jsnum \<Rightarrow> jsnum \<Rightarrow> string option \<Rightarrow> string option \<Rightarrow> statRow list" where
  "exampleSeries n limit s e = exampleRows"

definition exampleSeriesAggregated ::
    "jsnum \<Rightarrow> jsnum \<Rightarrow> jsnum \<Rightarrow> string option \<Rightarrow> string option \<Rightarrow> statRow list" where
  "exampleSeriesAggregated n minutes bucket s e = exampleRows"

definition exampleMerge :: "jsnum \<Rightarrow> statRow list \<Rightarrow> statRow list" where
  "exampleMerge n rows = mergeRows rows (pendingProxies (exampleCache n))"

definition exampleMergeTrend :: "jsnum \<Rightarrow> statRow list \<Rightarrow> jsnum \<Rightarrow> jsnum \<Rightarrow> statRow list" where
  "exampleMergeTrend n rows minutes bucket = mergeRows rows (pendingProxies (exampleCache n))"

text \<open>
  What a reply about a backend may depend on: the row without its token, and whether the
  token is present and not empty.
\<close>

definition tokenBlind :: "backend \<Rightarrow> backend \<times> bool" where
  "tokenBlind b = (b\<lparr>b_token := None\<rparr>, truthy (b_token b))"

text \<open>The Store of the scenario with another token for its backend.\<close>

definition otherTokenStore :: store where
  "otherTokenStore =
     exampleStore\<lparr>backendRows := [exampleBackend\<lparr>b_token := Some ''another''\<rparr>]\<rparr>"

section \<open>Strings: splitting and trimming\<close>

lemma split_not_Nil: "split sep s \<noteq> []"
  by (induction s) auto

lemma split_no_separator: "sep \<notin> set p \<Longrightarrow> split sep p = [p]"
  by (induction p) auto

lemma split_at_separator: "sep \<notin> set p \<Longrightarrow> split sep (p @ sep # r) = p # split sep r"
  by (induction p) auto

lemma trimStart_id: "c \<noteq> [] \<Longrightarrow> \<not> isWhiteSpace (hd c) \<Longrightarrow> trimStart (c @ w) = c @ w"
  by (cases c) (auto simp: trimStart_def)

lemma trimEnd_white: "c \<noteq> [] \<Longrightarrow> \<not> isWhiteSpace (last c) \<Longrightarrow> \<forall>x \<in> set w. isWhiteSpace x
    \<Longrightarrow> trimEnd (c @ w) = c"
proof -
  assume c: "c \<noteq> []" and l: "\<not> isWhiteSpace (last c)" and w: "\<forall>x \<in> set w. isWhiteSpace x"
  have "dropWhile isWhiteSpace (rev w @ rev c) = dropWhile isWhiteSpace (rev c)"
    using w by (simp add: dropWhile_append)
  moreover have "dropWhile isWhiteSpace (rev c) = rev c"
    using c l by (cases "rev c") (auto simp: last_rev hd_rev)
  ultimately show ?thesis by (simp add: trimEnd_def)
qed

lemma trim_white: "c \<noteq> [] \<Longrightarrow> \<not> isWhiteSpace (hd c) \<Longrightarrow> \<not> isWhiteSpace (last c)
    \<Longrightarrow> \<forall>x \<in> set w. isWhiteSpace x \<Longrightarrow> trim (c @ w) = c"
  by (simp add: trim_def trimStart_id trimEnd_white)

lemma unit_values:
  "codeUnit CHR ''>'' = 62" "codeUnit CHR '' '' = 32" "codeUnit CHR ''['' = 91"
  "codeUnit CHR '']'' = 93" "codeUnit CHR 0x22 = 34"
  by (simp_all add: codeUnit_def)

lemma codeUnits_simps: "codeUnits [] = []" "codeUnits (c # s) = codeUnit c # codeUnits s"
  by (simp_all add: codeUnits_def)

lemma gt_not_white: "\<not> isWhiteSpace (codeUnit CHR ''>'')"
  by (simp add: isWhiteSpace_def unit_values)

lemma space_white: "isWhiteSpace (codeUnit CHR '' '')"
  by (simp add: isWhiteSpace_def unit_values)

lemma chainParts_single:
  assumes "c \<noteq> []" "\<not> isWhiteSpace (hd c)" "\<not> isWhiteSpace (last c)" "(codeUnit CHR ''>'') \<notin> set c"
    and "\<forall>x \<in> set w. isWhiteSpace x"
  shows "chainParts (c @ w) = [c]"
proof -
  have "(codeUnit CHR ''>'') \<notin> set (c @ w)"
    using assms(4,5) gt_not_white by auto
  then have "split (codeUnit CHR ''>'') (c @ w) = [c @ w]"
    by (rule split_no_separator)
  then show ?thesis
    using assms by (simp add: chainParts_def trim_white)
qed

lemma chainParts_head:
  assumes "c \<noteq> []" "\<not> isWhiteSpace (hd c)" "\<not> isWhiteSpace (last c)" "(codeUnit CHR ''>'') \<notin> set c"
    and "\<forall>x \<in> set w. isWhiteSpace x"
  shows "chainParts (c @ w @ (codeUnit CHR ''>'') # r) = c # chainParts r"
proof -
  have "(codeUnit CHR ''>'') \<notin> set (c @ w)"
    using assms(4,5) gt_not_white by auto
  then have "split (codeUnit CHR ''>'') ((c @ w) @ (codeUnit CHR ''>'') # r) = (c @ w) # split (codeUnit CHR ''>'') r"
    by (rule split_at_separator)
  then show ?thesis
    using assms by (simp add: chainParts_def trim_white)
qed

lemma canonicalChain_Cons:
  "canonicalChain (c # cs) =
     (if cs = [] then c
      else c @ [codeUnit CHR '' ''] @ codeUnit CHR ''>'' # codeUnit CHR '' '' # canonicalChain cs)"
  by (cases cs) (simp_all add: canonicalChain_def codeUnits_simps)

lemma getLandingProxy_first:
  assumes "c \<noteq> []" "\<not> isWhiteSpace (hd c)" "\<not> isWhiteSpace (last c)"
    and "codeUnit CHR ''>'' \<notin> set c"
  shows "getLandingProxy (canonicalChain (c # cs)) = c"
proof (cases "cs = []")
  case True
  have "chainParts (c @ []) = [c]"
    using assms by (intro chainParts_single) simp_all
  then show ?thesis
    using True assms(1) by (simp add: canonicalChain_Cons getLandingProxy_def firstOr_def)
next
  case False
  have "chainParts (c @ [codeUnit CHR '' ''] @ codeUnit CHR ''>'' # codeUnit CHR '' '' # canonicalChain cs)
      = c # chainParts (codeUnit CHR '' '' # canonicalChain cs)"
    using assms by (intro chainParts_head) (simp_all add: space_white)
  then show ?thesis
    using False assms(1) by (simp add: canonicalChain_Cons getLandingProxy_def firstOr_def)
qed

lemma stripOpening_id:
  "c \<noteq> [] \<Longrightarrow> hd c \<noteq> codeUnit CHR ''['' \<Longrightarrow> stripOpening (c @ r) = c @ r"
  by (cases c) (auto simp: stripOpening_def)

lemma stripClosing_id: "c \<noteq> [] \<Longrightarrow> last c \<noteq> codeUnit CHR '']'' \<Longrightarrow> stripClosing c = c"
  by (simp add: stripClosing_def)

lemma stripClosing_two:
  "stripClosing (a @ [y, x]) =
     (if x = codeUnit CHR '']'' then (if y = codeUnit CHR 0x22 then a else a @ [y])
      else a @ [y, x])"
  by (simp add: stripClosing_def butlast_append)

lemma stripClosing_after_space:
  "\<exists>r'. stripClosing (p @ codeUnit CHR '' '' # r) = p @ codeUnit CHR '' '' # r'"
proof (cases r rule: rev_cases)
  case Nil
  then show ?thesis by (simp add: stripClosing_def unit_values)
next
  case (snoc r0 x)
  note r = this
  show ?thesis
  proof (cases r0 rule: rev_cases)
    case Nil
    have "stripClosing (p @ [codeUnit CHR '' '', x]) =
        (if x = codeUnit CHR '']'' then p @ [codeUnit CHR '' ''] else p @ [codeUnit CHR '' '', x])"
      by (simp add: stripClosing_two unit_values)
    then show ?thesis
      using r Nil by simp
  next
    case (snoc r1 y)
    have a: "p @ codeUnit CHR '' '' # r = (p @ codeUnit CHR '' '' # r1) @ [y, x]"
      using r snoc by simp
    show ?thesis
      unfolding a stripClosing_two by simp
  qed
qed

lemma trimEnd_after_gt:
  "trimEnd (p @ codeUnit CHR ''>'' # u) = p @ codeUnit CHR ''>'' # trimEnd u"
  by (simp add: trimEnd_def dropWhile_append gt_not_white)

lemma formatProxyName_first:
  assumes "c \<noteq> []" "\<not> isWhiteSpace (hd c)" "\<not> isWhiteSpace (last c)"
    and "codeUnit CHR ''>'' \<notin> set c"
    and "hd c \<noteq> codeUnit CHR ''[''" and "cs = [] \<longrightarrow> last c \<noteq> codeUnit CHR '']''"
  shows "formatProxyName (canonicalChain (c # cs)) = c"
proof (cases "cs = []")
  case True
  have "chainParts (c @ []) = [c]"
    using assms(1-4) by (intro chainParts_single) simp_all
  moreover have "trim (c @ []) = c"
    using assms(1-3) by (intro trim_white) simp_all
  moreover have "stripOpening (c @ []) = c @ []"
    using assms(1,5) by (rule stripOpening_id)
  moreover have "stripClosing c = c"
    using assms(1,6) True by (simp add: stripClosing_id)
  ultimately show ?thesis
    using True assms(1) by (simp add: canonicalChain_Cons formatProxyName_def firstOr_def)
next
  case False
  define sp where "sp = codeUnit CHR '' ''"
  define gt where "gt = codeUnit CHR ''>''"
  define name where "name = canonicalChain (c # cs)"
  have name: "name = c @ [sp, gt] @ sp # canonicalChain cs"
    using False by (simp add: name_def canonicalChain_Cons sp_def gt_def)
  have "stripOpening name = name"
    unfolding name using assms(1,5) by (rule stripOpening_id)
  moreover obtain r' where "stripClosing name = (c @ [sp, gt]) @ sp # r'"
    using stripClosing_after_space [of "c @ [sp, gt]" "canonicalChain cs"] name
    by (auto simp: sp_def)
  ultimately have 1: "stripClosing (stripOpening name) = c @ [sp, gt] @ sp # r'"
    by simp
  have "trimStart (c @ [sp, gt] @ sp # r') = c @ [sp, gt] @ sp # r'"
    using assms(1,2) by (rule trimStart_id)
  moreover have "trimEnd ((c @ [sp]) @ gt # sp # r') = (c @ [sp]) @ gt # trimEnd (sp # r')"
    unfolding gt_def by (rule trimEnd_after_gt)
  ultimately have 2: "trim (stripClosing (stripOpening name)) = c @ [sp] @ gt # trimEnd (sp # r')"
    using 1 by (simp add: trim_def)
  have "chainParts (c @ [sp] @ gt # trimEnd (sp # r')) = c # chainParts (trimEnd (sp # r'))"
    unfolding gt_def using assms(1-4) by (intro chainParts_head) (simp_all add: space_white sp_def)
  then have "formatProxyName name = c"
    using 2 assms(1) name by (simp add: formatProxyName_def firstOr_def)
  then show ?thesis by (simp add: name_def)
qed

lemmas chain_eval = getLandingProxy_def formatProxyName_def canonicalChain_def chainParts_def
  firstOr_def trim_def trimStart_def trimEnd_def isWhiteSpace_def stripOpening_def stripClosing_def
  codeUnits_def codeUnit_def

section \<open>The time range and the overlay decision\<close>

lemmas parseInt_eval = parseInt_def parseIntUnits_def codeUnits_def codeUnit_def
  trimStart_def hasHexPrefix_def isRadixDigit_def
  digitValue_def digitsValue_def toNumber_def roundMagnitude_def

lemma parseInt_empty: "parseInt [] r = NaN"
  by (simp add: parseInt_def parseIntUnits_def codeUnits_def trimStart_def hasHexPrefix_def
      Let_def)

lemma parseInt_default: "parseInt ''120000'' 10 = Num 120000"
  by (simp add: parseInt_eval isWhiteSpace_def)

lemma window_is_specTolerance:
  "(case parseInt (if truthy env then stringOf env else ''120000'') 10 of
      Num t \<Rightarrow> max 10000 t | _ \<Rightarrow> 120000) = specTolerance env"
proof (cases env)
  case None
  then show ?thesis
    by (simp add: truthy_def specTolerance_def parseInt_default)
next
  case (Some s)
  then show ?thesis
    by (cases "s = []") (simp_all add: truthy_def stringOf_def specTolerance_def parseInt_default parseInt_empty)
qed

lemma shouldIncludeRealtime_active:
  assumes "tr_active tr" "tr_end tr = Some e" "e \<noteq> []" "dateParse rt e = Some endMs"
  shows "shouldIncludeRealtime rt tr \<longleftrightarrow> dateNow rt - specTolerance (envTolerance rt) \<le> endMs"
  using assms window_is_specTolerance [of "envTolerance rt"]
  by (simp add: shouldIncludeRealtime_def truthy_def stringOf_def Let_def)

lemma getTimeRange_valid:
  assumes "truthy (q_start q)" "truthy (q_end q)"
    and "dateParse rt (stringOf (q_start q)) = Some startMs"
    and "dateParse rt (stringOf (q_end q)) = Some endMs"
    and "startMs \<le> endMs"
  shows "getTimeRange rt q = Inr \<lparr>tr_start = Some (toISOString rt startMs),
           tr_end = Some (toISOString rt endMs), tr_active = True\<rparr>"
  using assms by (simp add: getTimeRange_def)

lemma getTimeRange_absent:
  assumes "\<not> truthy (q_start q)" "\<not> truthy (q_end q)"
  shows "getTimeRange rt q = Inr \<lparr>tr_start = None, tr_end = None, tr_active = False\<rparr>"
  using assms by (simp add: getTimeRange_def)


lemmas scenario_defs = exampleRuntime_def exampleDates_def exampleStore_def exampleCache_def
  exampleBackend_def exampleRows_def recentQuery_def historicalQuery_def openQuery_def
  emptyStore_def

lemma parse_1: "parseInt ''1'' 0 = Num 1"
  by (simp add: parseInt_eval isWhiteSpace_def)

lemma getBackendId_example: "getBackendId db recentQuery = Some (Num 1)"
  "getBackendId db historicalQuery = Some (Num 1)" "getBackendId db openQuery = Some (Num 1)"
  by (simp_all add: getBackendId_def scenario_defs truthy_def stringOf_def parse_1)


lemma getTimeRange_status: "getTimeRange rt q = Inl sent \<Longrightarrow> fst sent = 400"
  by (auto simp: getTimeRange_def split: if_splits option.splits)

lemma routes_after_rejection:
  assumes "getTimeRange rt q = Inl sent"
  shows "get_stats_summary rt db cache q = Response 400 (ErrorBody (snd sent))"
    and "get_stats_proxies rt db cache q = Response 400 (ErrorBody (snd sent))"
    and "get_stats_rules rt db q = Response 400 (ErrorBody (snd sent))"
  using assms getTimeRange_status [OF assms]
  by (simp_all add: get_stats_summary_def get_stats_proxies_def get_stats_rules_def
      sendError_def Let_def)

lemma example_parse:
  "dateParse exampleRuntime ''2024-01-01T00:00:00.000Z'' = Some 1704067200000"
  "dateParse exampleRuntime ''2024-01-01T00:05:00.000Z'' = Some 1704067500000"
  "dateParse exampleRuntime ''yesterday'' = None"
  by (simp_all add: exampleRuntime_def exampleDates_def)

lemma example_print:
  "toISOString exampleRuntime 1704067200000 = ''2024-01-01T00:00:00.000Z''"
  "toISOString exampleRuntime 1704067500000 = ''2024-01-01T00:05:00.000Z''"
  by (simp_all add: exampleRuntime_def exampleDates_def)

lemma getActiveBackend_example: "getActiveBackend emptyStore = None"
  "getActiveBackend exampleStore = Some exampleBackend"
  by (simp_all add: getActiveBackend_def emptyStore_def exampleStore_def exampleBackend_def)

section \<open>The summary route\<close>

lemma top_lengths:
  "length (getTopDomains db n 10 s e) \<le> 10" "length (getTopIPs db n 10 s e) \<le> 10"
  "length (mergeTopDomains cache n rows 10) \<le> 10" "length (mergeTopIPs cache n rows 10) \<le> 10"
  "length (getHourlyStats db n 24 s e) \<le> 24"
  by (simp_all add: getTopDomains_def getTopIPs_def mergeTopDomains_def mergeTopIPs_def
      getHourlyStats_def)

lemma returned_inject: "returned a = returned b \<longleftrightarrow> a = b"
  by (simp add: returned_def)

lemma summary_success:
  assumes "getTimeRange rt q = Inr tr" "getBackendId db q = Some n" "getBackend db n = Some b"
  shows "\<exists>r. get_stats_summary rt db cache q = returned r
    \<and> r_totalDownload r = totalDownload (if shouldIncludeRealtime rt tr
          then applySummaryDelta cache n (getSummary db n (tr_start tr) (tr_end tr))
          else getSummary db n (tr_start tr) (tr_end tr))
    \<and> r_totalUpload r = totalUpload (if shouldIncludeRealtime rt tr
          then applySummaryDelta cache n (getSummary db n (tr_start tr) (tr_end tr))
          else getSummary db n (tr_start tr) (tr_end tr))
    \<and> r_totalConnections r = totalConnections (if shouldIncludeRealtime rt tr
          then applySummaryDelta cache n (getSummary db n (tr_start tr) (tr_end tr))
          else getSummary db n (tr_start tr) (tr_end tr))
    \<and> r_topDomains r = (if shouldIncludeRealtime rt tr
          then mergeTopDomains cache n (getTopDomains db n 10 (tr_start tr) (tr_end tr)) 10
          else getTopDomains db n 10 (tr_start tr) (tr_end tr))
    \<and> r_topIPs r = (if shouldIncludeRealtime rt tr
          then mergeTopIPs cache n (getTopIPs db n 10 (tr_start tr) (tr_end tr)) 10
          else getTopIPs db n 10 (tr_start tr) (tr_end tr))
    \<and> r_hourlyStats r = getHourlyStats db n 24 (tr_start tr) (tr_end tr)"
  using assms by (simp add: get_stats_summary_def Let_def returned_inject)

lemma summary_payload:
  assumes "payload (get_stats_summary rt db cache q) = JsonBody r"
  shows "\<exists>tr n b. getTimeRange rt q = Inr tr \<and> getBackendId db q = Some n \<and> getBackend db n = Some b"
proof (cases "getTimeRange rt q")
  case (Inl sent)
  then show ?thesis
    using assms by (simp add: get_stats_summary_def Let_def sendError_def)
next
  case (Inr tr)
  note tr = this
  show ?thesis
  proof (cases "getBackendId db q")
    case None
    then show ?thesis
      using assms tr by (simp add: get_stats_summary_def Let_def sendError_def)
  next
    case (Some n)
    note n = this
    show ?thesis
    proof (cases "getBackend db n")
      case None
      then show ?thesis
        using assms tr n by (simp add: get_stats_summary_def Let_def sendError_def)
    next
      case (Some b)
      then show ?thesis using tr n by simp
    qed
  qed
qed

lemma summary_limits:
  assumes "payload (get_stats_summary rt db cache q) = JsonBody r"
  shows "length (r_topDomains r) \<le> 10 \<and> length (r_topIPs r) \<le> 10 \<and> length (r_hourlyStats r) \<le> 24"
proof -
  obtain tr n b where h: "getTimeRange rt q = Inr tr" "getBackendId db q = Some n"
      "getBackend db n = Some b"
    using summary_payload [OF assms] by blast
  obtain r' where r': "get_stats_summary rt db cache q = returned r'"
    and d: "r_topDomains r' = (if shouldIncludeRealtime rt tr
          then mergeTopDomains cache n (getTopDomains db n 10 (tr_start tr) (tr_end tr)) 10
          else getTopDomains db n 10 (tr_start tr) (tr_end tr))"
    and i: "r_topIPs r' = (if shouldIncludeRealtime rt tr
          then mergeTopIPs cache n (getTopIPs db n 10 (tr_start tr) (tr_end tr)) 10
          else getTopIPs db n 10 (tr_start tr) (tr_end tr))"
    and hr: "r_hourlyStats r' = getHourlyStats db n 24 (tr_start tr) (tr_end tr)"
    using summary_success [OF h, of cache] by blast
  have "r' = r"
    using assms r' by (simp add: returned_def)
  then show ?thesis
    using d i hr top_lengths by simp
qed

lemma getBackend_example: "getBackend exampleStore (Num 1) = Some exampleBackend"
  by (simp add: getBackend_def exampleStore_def exampleBackend_def)

section \<open>Backends: creation and token elision\<close>

lemma includes_uniqueViolation: "includesStr uniqueViolation ''UNIQUE constraint failed''"
  by (simp add: uniqueViolation_def)

lemma find_append_inactive: "\<not> P x \<Longrightarrow> find P (xs @ [x]) = find P xs"
  by (induction xs) auto

lemma elideToken_no_token: "map_of (elideToken obj) ''token'' = None"
  by (simp add: elideToken_def update_conv' delete_conv')

lemma elideToken_hasToken:
  "map_of (elideToken obj) ''hasToken'' = Some (JBool (toBoolean (map_of obj ''token'')))"
  by (simp add: elideToken_def update_conv')

lemma token_of_row: "toBoolean (map_of (toObject b) ''token'') = truthy (b_token b)"
  by (simp add: toObject_def truthy_def split: option.splits)

lemma view_explicit:
  "elideToken (toObject b) =
     [(''id'', JNumber (b_id b)), (''name'', JString (b_name b)), (''url'', JString (b_url b)),
      (''enabled'', JBool (b_enabled b)), (''listening'', JBool (b_listening b)),
      (''is_active'', JBool (b_is_active b)), (''created_at'', JString (b_created_at b)),
      (''hasToken'', JBool (truthy (b_token b)))]"
  by (simp add: elideToken_def toObject_def AList.delete_eq truthy_def split: option.splits)

lemma tokenBlind_fields:
  assumes "tokenBlind a = tokenBlind b"
  shows "b_id a = b_id b" "b_name a = b_name b" "b_url a = b_url b" "b_enabled a = b_enabled b"
    "b_listening a = b_listening b" "b_is_active a = b_is_active b"
    "b_created_at a = b_created_at b" "truthy (b_token a) = truthy (b_token b)"
proof -
  have e: "a\<lparr>b_token := None\<rparr> = b\<lparr>b_token := None\<rparr>" and t: "truthy (b_token a) = truthy (b_token b)"
    using assms by (simp_all add: tokenBlind_def)
  show "truthy (b_token a) = truthy (b_token b)" by (rule t)
  show "b_id a = b_id b" using arg_cong [OF e, of b_id] by simp
  show "b_name a = b_name b" using arg_cong [OF e, of b_name] by simp
  show "b_url a = b_url b" using arg_cong [OF e, of b_url] by simp
  show "b_enabled a = b_enabled b" using arg_cong [OF e, of b_enabled] by simp
  show "b_listening a = b_listening b" using arg_cong [OF e, of b_listening] by simp
  show "b_is_active a = b_is_active b" using arg_cong [OF e, of b_is_active] by simp
  show "b_created_at a = b_created_at b" using arg_cong [OF e, of b_created_at] by simp
qed

lemma view_tokenBlind:
  "tokenBlind a = tokenBlind b \<Longrightarrow> elideToken (toObject a) = elideToken (toObject b)"
  using tokenBlind_fields [of a b] by (simp add: view_explicit)

lemma map_blind:
  assumes "\<And>a b. f a = f b \<Longrightarrow> h a = h b"
  shows "map f xs = map f ys \<Longrightarrow> map h xs = map h ys"
proof (induction xs arbitrary: ys)
  case Nil
  then show ?case by simp
next
  case (Cons x xs)
  then obtain y ys' where ys: "ys = y # ys'" by (cases ys) simp_all
  have fx: "f x = f y" and rest: "map f xs = map f ys'"
    using Cons.prems ys by simp_all
  have "h x = h y" using fx by (rule assms)
  moreover have "map h xs = map h ys'" using rest by (rule Cons.IH)
  ultimately show ?case using ys by simp
qed

lemma filter_blind:
  assumes "\<And>a b. f a = f b \<Longrightarrow> P a = P b"
  shows "map f xs = map f ys \<Longrightarrow> map f (filter P xs) = map f (filter P ys)"
proof (induction xs arbitrary: ys)
  case Nil
  then show ?case by simp
next
  case (Cons x xs)
  then obtain y ys' where ys: "ys = y # ys'" by (cases ys) simp_all
  have fx: "f x = f y" and rest: "map f xs = map f ys'"
    using Cons.prems ys by simp_all
  have "P x = P y" using fx by (rule assms)
  moreover have "map f (filter P xs) = map f (filter P ys')" using rest by (rule Cons.IH)
  ultimately show ?case using ys fx by simp
qed

lemma find_blind:
  assumes "\<And>a b. f a = f b \<Longrightarrow> P a = P b"
  shows "map f xs = map f ys \<Longrightarrow> map_option f (find P xs) = map_option f (find P ys)"
proof (induction xs arbitrary: ys)
  case Nil
  then show ?case by simp
next
  case (Cons x xs)
  then obtain y ys' where ys: "ys = y # ys'" by (cases ys) simp_all
  have fx: "f x = f y" and rest: "map f xs = map f ys'"
    using Cons.prems ys by simp_all
  have "P x = P y" using fx by (rule assms)
  moreover have "map_option f (find P xs) = map_option f (find P ys')"
    using rest by (rule Cons.IH)
  ultimately show ?case using ys fx by simp
qed

lemma routes_tokenBlind:
  assumes "map tokenBlind (backendRows db) = map tokenBlind (backendRows db')"
  shows "get_backends db = get_backends db'"
    and "get_backends_listening db = get_backends_listening db'"
    and "get_backends_active db = get_backends_active db'"
proof -
  have view: "map (\<lambda>b. elideToken (toObject b)) xs = map (\<lambda>b. elideToken (toObject b)) ys"
    if "map tokenBlind xs = map tokenBlind ys" for xs ys
    using view_tokenBlind that by (rule map_blind)
  show "get_backends db = get_backends db'"
    using view [OF assms] by (simp add: get_backends_def getAllBackends_def)
  have l: "map tokenBlind (filter b_listening (backendRows db)) =
      map tokenBlind (filter b_listening (backendRows db'))"
    using tokenBlind_fields(5) assms by (rule filter_blind)
  show "get_backends_listening db = get_backends_listening db'"
    using view [OF l] by (simp add: get_backends_listening_def getListeningBackends_def)
  have f: "map_option tokenBlind (find b_is_active (backendRows db)) =
      map_option tokenBlind (find b_is_active (backendRows db'))"
    using tokenBlind_fields(6) assms by (rule find_blind)
  show "get_backends_active db = get_backends_active db'"
  proof (cases "find b_is_active (backendRows db)")
    case None
    then have "find b_is_active (backendRows db') = None"
      using f by simp
    then show ?thesis
      using None by (simp add: get_backends_active_def getActiveBackend_def)
  next
    case (Some a)
    then obtain b where b: "find b_is_active (backendRows db') = Some b"
      and ab: "tokenBlind a = tokenBlind b"
      using f by (cases "find b_is_active (backendRows db')") simp_all
    have "elideToken (toObject a) = elideToken (toObject b)"
      using ab by (rule view_tokenBlind)
    then show ?thesis
      using Some b by (simp add: get_backends_active_def getActiveBackend_def)
  qed
qed

lemma view_facts:
  "map_of (elideToken (toObject b)) ''token'' = None"
  "map_of (elideToken (toObject b)) ''hasToken'' = Some (JBool (truthy (b_token b)))"
  by (simp_all add: elideToken_no_token elideToken_hasToken token_of_row)

section \<open>The routes that consult the overlay decision\<close>

lemma summary_overlay_fields:
  assumes "getTimeRange rt q = Inr tr" "getBackendId db q = Some n" "getBackend db n = Some b"
  shows "\<exists>r. get_stats_summary rt db cache q = returned r
    \<and> r_totalDownload r = totalDownload (if shouldIncludeRealtime rt tr
          then applySummaryDelta cache n (getSummary db n (tr_start tr) (tr_end tr))
          else getSummary db n (tr_start tr) (tr_end tr))
    \<and> r_totalUpload r = totalUpload (if shouldIncludeRealtime rt tr
          then applySummaryDelta cache n (getSummary db n (tr_start tr) (tr_end tr))
          else getSummary db n (tr_start tr) (tr_end tr))
    \<and> r_totalConnections r = totalConnections (if shouldIncludeRealtime rt tr
          then applySummaryDelta cache n (getSummary db n (tr_start tr) (tr_end tr))
          else getSummary db n (tr_start tr) (tr_end tr))
    \<and> r_topDomains r = (if shouldIncludeRealtime rt tr
          then mergeTopDomains cache n (getTopDomains db n 10 (tr_start tr) (tr_end tr)) 10
          else getTopDomains db n 10 (tr_start tr) (tr_end tr))
    \<and> r_topIPs r = (if shouldIncludeRealtime rt tr
          then mergeTopIPs cache n (getTopIPs db n 10 (tr_start tr) (tr_end tr)) 10
          else getTopIPs db n 10 (tr_start tr) (tr_end tr))
    \<and> r_proxyStats r = (if shouldIncludeRealtime rt tr
          then mergeProxyStats cache n (getProxyStats db n (tr_start tr) (tr_end tr))
          else getProxyStats db n (tr_start tr) (tr_end tr))
    \<and> r_todayUpload r = upload (getTrafficInRange db n (tr_start tr) (tr_end tr))
          + (if shouldIncludeRealtime rt tr then upload (getTodayDelta cache n) else 0)
    \<and> r_todayDownload r = download (getTrafficInRange db n (tr_start tr) (tr_end tr))
          + (if shouldIncludeRealtime rt tr then download (getTodayDelta cache n) else 0)"
  using assms by (simp add: get_stats_summary_def Let_def returned_inject)

lemma overlay_routes:
  assumes tr: "getTimeRange rt q = Inr tr" and n: "getBackendId db q = Some n"
  shows "get_stats_proxies rt db cache q =
      returned (let stats = getProxyStats db n (tr_start tr) (tr_end tr)
                in if shouldIncludeRealtime rt tr then mergeProxyStats cache n stats else stats)"
    and "get_stats_countries getCountryStats mergeCountryStats rt db q limit =
      returned (let stats = getCountryStats n
                              (parseInt (if truthy limit then stringOf limit else ''50'') 10)
                              (tr_start tr) (tr_end tr)
                in if shouldIncludeRealtime rt tr then mergeCountryStats n stats else stats)"
    and "get_stats_trend getTrafficTrend mergeTrend rt db q minutes =
      returned (let base = getTrafficTrend n (numberParam minutes 30) (tr_start tr) (tr_end tr)
                in if shouldIncludeRealtime rt tr
                   then mergeTrend n base (numberParam minutes 30) (Num 1) else base)"
    and "get_stats_trend_aggregated getTrafficTrendAggregated mergeTrend rt db q minutes bucketMinutes =
      returned (let base = getTrafficTrendAggregated n (numberParam minutes 30)
                             (numberParam bucketMinutes 1) (tr_start tr) (tr_end tr)
                in if shouldIncludeRealtime rt tr
                   then mergeTrend n base (numberParam minutes 30) (numberParam bucketMinutes 1)
                   else base)"
    and "get_stats_rules rt db q = returned (getRuleStats db n (tr_start tr) (tr_end tr))"
  using tr n
  by (simp_all add: get_stats_proxies_def get_stats_countries_def get_stats_trend_def
      get_stats_trend_aggregated_def get_stats_rules_def Let_def)

section \<open>Evaluating the date-time syntax\<close>

lemma split_step:
  "split sep (c # cs) =
     (case split sep cs of
        [] \<Rightarrow> [[c]]
      | p # ps \<Rightarrow> if c = sep then [] # p # ps else (c # p) # ps)"
  using split_not_Nil [of sep cs] by (cases "split sep cs") simp_all

lemma iso_example: "isoDateTime ''2001-01-01T00:00:00.000Z''"
proof -
  have 1: "split CHR ''T'' ''2001-01-01T00:00:00.000Z'' = [''2001-01-01'', ''00:00:00.000Z'']"
    by (simp add: split_step del: split.simps(2))
  have 2: "split CHR ''-'' ''2001-01-01'' = [''2001'', ''01'', ''01'']"
    by (simp add: split_step del: split.simps(2))
  have 3: "split CHR '':'' ''00:00:00.000'' = [''00'', ''00'', ''00.000'']"
    by (simp add: split_step del: split.simps(2))
  have 4: "split CHR ''.'' ''00.000'' = [''00'', ''000'']"
    by (simp add: split_step del: split.simps(2))
  have d: "isDigit CHR ''0''" "isDigit CHR ''1''" "isDigit CHR ''2''"
    by (simp_all add: isDigit_def codeUnit_def)
  have date: "isoDate ''2001-01-01''"
    by (simp add: isoDate_def isSign_def 2 isoYear_def digitsOfLength_def d del: split.simps)
  have time: "isoTime ''00:00:00.000''"
    by (simp add: isoTime_def 3 isoSeconds_def 4 digitsOfLength_def d del: split.simps)
  have off: "isoOffset ''Z''"
    by (simp add: isoOffset_def)
  show ?thesis
    using date time off by (simp add: isoDateTime_def 1 isSign_def del: split.simps)
qed


lemma not_iso: "\<not> isoDateTime ''1''" "\<not> isoDateTime ''2''"
  by (simp_all add: isoDateTime_def isoDate_def isSign_def isoYear_def digitsOfLength_def)

section \<open>The claims\<close>

text \<open>
  C1, as amended. On the routes that consult the overlay decision (summary, proxies,
  countries, trend and trend/aggregated), a query that supplies a valid time window gets
  the realtime overlay exactly when the end of the window is at or after now minus the
  tolerance, the tolerance being the value of \<open>REALTIME_RANGE_END_TOLERANCE_MS\<close> when it
  parses to a finite number (clamped below at 10000) and 120000 otherwise; otherwise these
  routes return the Store's data as it is. \<open>GET /api/stats/rules\<close> has no overlay and
  returns the Store's rows whatever the window. The runtime is assumed to read back the
  instant it has printed with \<open>toISOString\<close>.
\<close>

theorem overlay_routes_window:
  assumes "truthy (q_start q)" "truthy (q_end q)"
    and "dateParse rt (stringOf (q_start q)) = Some startMs"
    and "dateParse rt (stringOf (q_end q)) = Some endMs"
    and "startMs \<le> endMs"
    and "toISOString rt endMs \<noteq> []"
    and "dateParse rt (toISOString rt endMs) = Some endMs"
    and "getBackendId db q = Some n"
  shows "\<exists>tr. getTimeRange rt q = Inr tr
      \<and> tr_start tr = Some (toISOString rt startMs) \<and> tr_end tr = Some (toISOString rt endMs)
      \<and> (shouldIncludeRealtime rt tr
           \<longleftrightarrow> withinTolerance rt endMs)
      \<and> get_stats_proxies rt db cache q =
          returned (if withinTolerance rt endMs
                    then mergeProxyStats cache n (getProxyStats db n (tr_start tr) (tr_end tr))
                    else getProxyStats db n (tr_start tr) (tr_end tr))
      \<and> get_stats_countries getCountryStats mergeCountryStats rt db q limit =
          returned (if withinTolerance rt endMs
                    then mergeCountryStats n (getCountryStats n
                           (parseInt (if truthy limit then stringOf limit else ''50'') 10)
                           (tr_start tr) (tr_end tr))
                    else getCountryStats n
                           (parseInt (if truthy limit then stringOf limit else ''50'') 10)
                           (tr_start tr) (tr_end tr))
      \<and> get_stats_trend getTrafficTrend mergeTrend rt db q minutes =
          returned (if withinTolerance rt endMs
                    then mergeTrend n (getTrafficTrend n (numberParam minutes 30)
                           (tr_start tr) (tr_end tr)) (numberParam minutes 30) (Num 1)
                    else getTrafficTrend n (numberParam minutes 30) (tr_start tr) (tr_end tr))
      \<and> get_stats_trend_aggregated getTrafficTrendAggregated mergeTrend rt db q minutes
            bucketMinutes =
          returned (if withinTolerance rt endMs
                    then mergeTrend n (getTrafficTrendAggregated n (numberParam minutes 30)
                           (numberParam bucketMinutes 1) (tr_start tr) (tr_end tr))
                           (numberParam minutes 30) (numberParam bucketMinutes 1)
                    else getTrafficTrendAggregated n (numberParam minutes 30)
                           (numberParam bucketMinutes 1) (tr_start tr) (tr_end tr))
      \<and> (\<forall>b. getBackend db n = Some b \<longrightarrow>
           (\<exists>r. get_stats_summary rt db cache q = returned r
              \<and> r_totalDownload r = totalDownload
                  (if withinTolerance rt endMs
                   then applySummaryDelta cache n (getSummary db n (tr_start tr) (tr_end tr))
                   else getSummary db n (tr_start tr) (tr_end tr))
              \<and> r_totalUpload r = totalUpload
                  (if withinTolerance rt endMs
                   then applySummaryDelta cache n (getSummary db n (tr_start tr) (tr_end tr))
                   else getSummary db n (tr_start tr) (tr_end tr))
              \<and> r_totalConnections r = totalConnections
                  (if withinTolerance rt endMs
                   then applySummaryDelta cache n (getSummary db n (tr_start tr) (tr_end tr))
                   else getSummary db n (tr_start tr) (tr_end tr))
              \<and> r_topDomains r =
                  (if withinTolerance rt endMs
                   then mergeTopDomains cache n
                          (getTopDomains db n 10 (tr_start tr) (tr_end tr)) 10
                   else getTopDomains db n 10 (tr_start tr) (tr_end tr))
              \<and> r_topIPs r =
                  (if withinTolerance rt endMs
                   then mergeTopIPs cache n (getTopIPs db n 10 (tr_start tr) (tr_end tr)) 10
                   else getTopIPs db n 10 (tr_start tr) (tr_end tr))
              \<and> r_proxyStats r =
                  (if withinTolerance rt endMs
                   then mergeProxyStats cache n (getProxyStats db n (tr_start tr) (tr_end tr))
                   else getProxyStats db n (tr_start tr) (tr_end tr))
              \<and> r_todayUpload r =
                  upload (getTrafficInRange db n (tr_start tr) (tr_end tr))
                  + (if withinTolerance rt endMs
                     then upload (getTodayDelta cache n) else 0)
              \<and> r_todayDownload r =
                  download (getTrafficInRange db n (tr_start tr) (tr_end tr))
                  + (if withinTolerance rt endMs
                     then download (getTodayDelta cache n) else 0)))
      \<and> get_stats_rules rt db q = returned (getRuleStats db n (tr_start tr) (tr_end tr))"
proof -
  let ?tr = "\<lparr>tr_start = Some (toISOString rt startMs),
           tr_end = Some (toISOString rt endMs), tr_active = True\<rparr>"
  have tr: "getTimeRange rt q = Inr ?tr"
    using assms(1-5) by (rule getTimeRange_valid)
  have inc: "shouldIncludeRealtime rt ?tr \<longleftrightarrow> withinTolerance rt endMs"
    unfolding withinTolerance_def
    using assms(6,7) by (intro shouldIncludeRealtime_active) simp_all
  note routes = overlay_routes [OF tr assms(8), unfolded Let_def inc]
  have summary: "\<forall>b. getBackend db n = Some b \<longrightarrow>
           (\<exists>r. get_stats_summary rt db cache q = returned r
              \<and> r_totalDownload r = totalDownload
                  (if withinTolerance rt endMs
                   then applySummaryDelta cache n (getSummary db n (tr_start ?tr) (tr_end ?tr))
                   else getSummary db n (tr_start ?tr) (tr_end ?tr))
              \<and> r_totalUpload r = totalUpload
                  (if withinTolerance rt endMs
                   then applySummaryDelta cache n (getSummary db n (tr_start ?tr) (tr_end ?tr))
                   else getSummary db n (tr_start ?tr) (tr_end ?tr))
              \<and> r_totalConnections r = totalConnections
                  (if withinTolerance rt endMs
                   then applySummaryDelta cache n (getSummary db n (tr_start ?tr) (tr_end ?tr))
                   else getSummary db n (tr_start ?tr) (tr_end ?tr))
              \<and> r_topDomains r =
                  (if withinTolerance rt endMs
                   then mergeTopDomains cache n
                          (getTopDomains db n 10 (tr_start ?tr) (tr_end ?tr)) 10
                   else getTopDomains db n 10 (tr_start ?tr) (tr_end ?tr))
              \<and> r_topIPs r =
                  (if withinTolerance rt endMs
                   then mergeTopIPs cache n (getTopIPs db n 10 (tr_start ?tr) (tr_end ?tr)) 10
                   else getTopIPs db n 10 (tr_start ?tr) (tr_end ?tr))
              \<and> r_proxyStats r =
                  (if withinTolerance rt endMs
                   then mergeProxyStats cache n (getProxyStats db n (tr_start ?tr) (tr_end ?tr))
                   else getProxyStats db n (tr_start ?tr) (tr_end ?tr))
              \<and> r_todayUpload r =
                  upload (getTrafficInRange db n (tr_start ?tr) (tr_end ?tr))
                  + (if withinTolerance rt endMs
                     then upload (getTodayDelta cache n) else 0)
              \<and> r_todayDownload r =
                  download (getTrafficInRange db n (tr_start ?tr) (tr_end ?tr))
                  + (if withinTolerance rt endMs
                     then download (getTodayDelta cache n) else 0))"
  proof (intro allI impI)
    fix b assume b: "getBackend db n = Some b"
    show "\<exists>r. get_stats_summary rt db cache q = returned r
              \<and> r_totalDownload r = totalDownload
                  (if withinTolerance rt endMs
                   then applySummaryDelta cache n (getSummary db n (tr_start ?tr) (tr_end ?tr))
                   else getSummary db n (tr_start ?tr) (tr_end ?tr))
              \<and> r_totalUpload r = totalUpload
                  (if withinTolerance rt endMs
                   then applySummaryDelta cache n (getSummary db n (tr_start ?tr) (tr_end ?tr))
                   else getSummary db n (tr_start ?tr) (tr_end ?tr))
              \<and> r_totalConnections r = totalConnections
                  (if withinTolerance rt endMs
                   then applySummaryDelta cache n (getSummary db n (tr_start ?tr) (tr_end ?tr))
                   else getSummary db n (tr_start ?tr) (tr_end ?tr))
              \<and> r_topDomains r =
                  (if withinTolerance rt endMs
                   then mergeTopDomains cache n
                          (getTopDomains db n 10 (tr_start ?tr) (tr_end ?tr)) 10
                   else getTopDomains db n 10 (tr_start ?tr) (tr_end ?tr))
              \<and> r_topIPs r =
                  (if withinTolerance rt endMs
                   then mergeTopIPs cache n (getTopIPs db n 10 (tr_start ?tr) (tr_end ?tr)) 10
                   else getTopIPs db n 10 (tr_start ?tr) (tr_end ?tr))
              \<and> r_proxyStats r =
                  (if withinTolerance rt endMs
                   then mergeProxyStats cache n (getProxyStats db n (tr_start ?tr) (tr_end ?tr))
                   else getProxyStats db n (tr_start ?tr) (tr_end ?tr))
              \<and> r_todayUpload r =
                  upload (getTrafficInRange db n (tr_start ?tr) (tr_end ?tr))
                  + (if withinTolerance rt endMs
                     then upload (getTodayDelta cache n) else 0)
              \<and> r_todayDownload r =
                  download (getTrafficInRange db n (tr_start ?tr) (tr_end ?tr))
                  + (if withinTolerance rt endMs
                     then download (getTodayDelta cache n) else 0)"
      using summary_overlay_fields [OF tr assms(8) b, of cache, unfolded inc] .
  qed
  show ?thesis
    apply (rule exI [of _ ?tr])
    apply (intro conjI)
              apply (rule tr)
             apply simp
            apply simp
           apply (rule inc)
          apply (rule routes(1))
         apply (rule routes(2))
        apply (rule routes(3))
       apply (rule routes(4))
      apply (rule summary)
     apply (rule routes(5))
    done
qed


theorem overlay_routes_window_witness:
  "get_stats_proxies exampleRuntime exampleStore exampleCache recentQuery =
     returned (mergeProxyStats exampleCache (Num 1) exampleRows)
   \<and> get_stats_proxies exampleRuntime exampleStore exampleCache historicalQuery =
     returned exampleRows
   \<and> get_stats_countries exampleSeries exampleMerge exampleRuntime exampleStore recentQuery None =
     returned (exampleMerge (Num 1) exampleRows)
   \<and> get_stats_trend exampleSeries exampleMergeTrend exampleRuntime exampleStore
        historicalQuery (Some ''60'') = returned exampleRows"
proof -
  have h1: "truthy (q_start recentQuery)" "truthy (q_end recentQuery)"
    "dateParse exampleRuntime (stringOf (q_start recentQuery)) = Some 1704067200000"
    "dateParse exampleRuntime (stringOf (q_end recentQuery)) = Some 1704067500000"
    "(1704067200000 :: int) \<le> 1704067500000"
    "toISOString exampleRuntime 1704067500000 \<noteq> []"
    "dateParse exampleRuntime (toISOString exampleRuntime 1704067500000) = Some 1704067500000"
    by (simp_all add: recentQuery_def truthy_def stringOf_def exampleRuntime_def exampleDates_def)
  have h2: "truthy (q_start historicalQuery)" "truthy (q_end historicalQuery)"
    "dateParse exampleRuntime (stringOf (q_start historicalQuery)) = Some 1704066600000"
    "dateParse exampleRuntime (stringOf (q_end historicalQuery)) = Some 1704066900000"
    "(1704066600000 :: int) \<le> 1704066900000"
    "toISOString exampleRuntime 1704066900000 \<noteq> []"
    "dateParse exampleRuntime (toISOString exampleRuntime 1704066900000) = Some 1704066900000"
    by (simp_all add: historicalQuery_def truthy_def stringOf_def exampleRuntime_def
        exampleDates_def)
  have near: "withinTolerance exampleRuntime 1704067500000"
    "\<not> withinTolerance exampleRuntime 1704066900000"
    by (simp_all add: withinTolerance_def specTolerance_def exampleRuntime_def)
  have rows: "getProxyStats exampleStore n s e = exampleRows" for n s e
    by (simp add: getProxyStats_def exampleStore_def)
  have series: "exampleSeries n l s e = exampleRows" for n l s e
    by (simp add: exampleSeries_def)
  obtain tr :: timeRange where a: "get_stats_proxies exampleRuntime exampleStore exampleCache recentQuery =
          returned (if withinTolerance exampleRuntime 1704067500000
                    then mergeProxyStats exampleCache (Num 1)
                           (getProxyStats exampleStore (Num 1) (tr_start tr) (tr_end tr))
                    else getProxyStats exampleStore (Num 1) (tr_start tr) (tr_end tr))"
    and c: "get_stats_countries exampleSeries exampleMerge exampleRuntime exampleStore
              recentQuery None =
          returned (if withinTolerance exampleRuntime 1704067500000
                    then exampleMerge (Num 1) (exampleSeries (Num 1)
                           (parseInt (if truthy None then stringOf None else ''50'') 10)
                           (tr_start tr) (tr_end tr))
                    else exampleSeries (Num 1)
                           (parseInt (if truthy None then stringOf None else ''50'') 10)
                           (tr_start tr) (tr_end tr))"
    using overlay_routes_window [where q = recentQuery and rt = exampleRuntime
        and db = exampleStore and cache = exampleCache and getCountryStats = exampleSeries
        and mergeCountryStats = exampleMerge and limit = None and n = "Num 1",
        OF h1 getBackendId_example(1)]
    by blast
  obtain tr' :: timeRange where b: "get_stats_proxies exampleRuntime exampleStore exampleCache historicalQuery =
          returned (if withinTolerance exampleRuntime 1704066900000
                    then mergeProxyStats exampleCache (Num 1)
                           (getProxyStats exampleStore (Num 1) (tr_start tr') (tr_end tr'))
                    else getProxyStats exampleStore (Num 1) (tr_start tr') (tr_end tr'))"
    and d: "get_stats_trend exampleSeries exampleMergeTrend exampleRuntime exampleStore
              historicalQuery (Some ''60'') =
          returned (if withinTolerance exampleRuntime 1704066900000
                    then exampleMergeTrend (Num 1) (exampleSeries (Num 1)
                           (numberParam (Some ''60'') 30) (tr_start tr') (tr_end tr'))
                           (numberParam (Some ''60'') 30) (Num 1)
                    else exampleSeries (Num 1) (numberParam (Some ''60'') 30)
                           (tr_start tr') (tr_end tr'))"
    using overlay_routes_window [where q = historicalQuery and rt = exampleRuntime
        and db = exampleStore and cache = exampleCache and getTrafficTrend = exampleSeries
        and mergeTrend = exampleMergeTrend and minutes = "Some ''60''" and n = "Num 1",
        OF h2 getBackendId_example(2)]
    by blast
  show ?thesis
    using a b c d by (simp add: near rows series)
qed

theorem overlay_routes_window_counterexample:
  "dateParse exampleRuntime (stringOf (q_end recentQuery)) = Some 1704067500000
   \<and> withinTolerance exampleRuntime 1704067500000
   \<and> getRuleStats exampleStore (Num 1) (Some ''2024-01-01T00:00:00.000Z'')
        (Some ''2024-01-01T00:05:00.000Z'') = exampleRows
   \<and> get_stats_rules exampleRuntime exampleStore recentQuery = returned exampleRows"
proof -
  have e: "dateParse exampleRuntime (stringOf (q_end recentQuery)) = Some 1704067500000"
    by (simp add: recentQuery_def stringOf_def exampleRuntime_def exampleDates_def)
  have near: "withinTolerance exampleRuntime 1704067500000"
    by (simp add: withinTolerance_def specTolerance_def exampleRuntime_def)
  have rows: "getRuleStats exampleStore n s e = exampleRows" for n s e
    by (simp add: getRuleStats_def exampleStore_def)
  have tr: "getTimeRange exampleRuntime recentQuery =
       Inr \<lparr>tr_start = Some ''2024-01-01T00:00:00.000Z'',
            tr_end = Some ''2024-01-01T00:05:00.000Z'', tr_active = True\<rparr>"
    by (simp add: getTimeRange_def recentQuery_def truthy_def stringOf_def exampleRuntime_def
        exampleDates_def)
  have "get_stats_rules exampleRuntime exampleStore recentQuery = returned exampleRows"
    using tr getBackendId_example(1) [of exampleStore]
    by (simp add: get_stats_rules_def rows)
  then show ?thesis using e near rows by simp
qed

text \<open>
  C2, as amended. On every stats route that takes a time range (here summary, proxies and
  rules): when exactly one of \<open>start\<close> and \<open>end\<close> is provided, or the \<open>Date\<close>
  constructor of the runtime gives an invalid date for one of them, or \<open>start\<close> is after
  \<open>end\<close>, the reply is 400 with an error body; when both are absent the query goes on
  without a window; when the constructor reads both and \<open>start \<le> end\<close> it goes on
  with the window as ISO strings. The constructor reads more than ISO-8601: the values
  \<open>1\<close> and \<open>2\<close> are accepted. A parameter counts as provided when it is present and
  not empty, which is how the source tests it.
\<close>

theorem time_range_validation:
  "(truthy (q_start q) \<noteq> truthy (q_end q) \<longrightarrow>
      getTimeRange rt q = Inl (400, ''Both start and end must be provided together''))
   \<and> (truthy (q_start q) \<and> truthy (q_end q)
        \<and> (dateParse rt (stringOf (q_start q)) = None \<or> dateParse rt (stringOf (q_end q)) = None) \<longrightarrow>
      getTimeRange rt q = Inl (400, ''Invalid time range format, expected ISO datetime''))
   \<and> (\<forall>a b. truthy (q_start q) \<and> truthy (q_end q)
        \<and> dateParse rt (stringOf (q_start q)) = Some a
        \<and> dateParse rt (stringOf (q_end q)) = Some b \<and> b < a \<longrightarrow>
      getTimeRange rt q = Inl (400, ''start must be less than or equal to end''))
   \<and> (\<forall>sent. getTimeRange rt q = Inl sent \<longrightarrow>
        get_stats_summary rt db cache q = Response 400 (ErrorBody (snd sent))
        \<and> get_stats_proxies rt db cache q = Response 400 (ErrorBody (snd sent))
        \<and> get_stats_rules rt db q = Response 400 (ErrorBody (snd sent)))
   \<and> (\<not> truthy (q_start q) \<and> \<not> truthy (q_end q) \<longrightarrow>
      getTimeRange rt q = Inr \<lparr>tr_start = None, tr_end = None, tr_active = False\<rparr>)
   \<and> (\<forall>a b. truthy (q_start q) \<and> truthy (q_end q)
        \<and> dateParse rt (stringOf (q_start q)) = Some a
        \<and> dateParse rt (stringOf (q_end q)) = Some b \<and> a \<le> b \<longrightarrow>
      getTimeRange rt q = Inr \<lparr>tr_start = Some (toISOString rt a),
        tr_end = Some (toISOString rt b), tr_active = True\<rparr>)
   \<and> (\<forall>tr n. getTimeRange rt q = Inr tr \<and> getBackendId db q = Some n \<longrightarrow>
        get_stats_rules rt db q = returned (getRuleStats db n (tr_start tr) (tr_end tr)))"
proof -
  have 1: "truthy (q_start q) \<noteq> truthy (q_end q) \<longrightarrow>
      getTimeRange rt q = Inl (400, ''Both start and end must be provided together'')"
    by (auto simp: getTimeRange_def)
  have 2: "truthy (q_start q) \<and> truthy (q_end q)
        \<and> (dateParse rt (stringOf (q_start q)) = None \<or> dateParse rt (stringOf (q_end q)) = None) \<longrightarrow>
      getTimeRange rt q = Inl (400, ''Invalid time range format, expected ISO datetime'')"
    by (auto simp: getTimeRange_def split: option.splits)
  have 3: "\<forall>a b. truthy (q_start q) \<and> truthy (q_end q)
        \<and> dateParse rt (stringOf (q_start q)) = Some a
        \<and> dateParse rt (stringOf (q_end q)) = Some b \<and> b < a \<longrightarrow>
      getTimeRange rt q = Inl (400, ''start must be less than or equal to end'')"
    by (simp add: getTimeRange_def)
  have 4: "\<forall>sent. getTimeRange rt q = Inl sent \<longrightarrow>
        get_stats_summary rt db cache q = Response 400 (ErrorBody (snd sent))
        \<and> get_stats_proxies rt db cache q = Response 400 (ErrorBody (snd sent))
        \<and> get_stats_rules rt db q = Response 400 (ErrorBody (snd sent))"
    using routes_after_rejection by blast
  have 5: "\<not> truthy (q_start q) \<and> \<not> truthy (q_end q) \<longrightarrow>
      getTimeRange rt q = Inr \<lparr>tr_start = None, tr_end = None, tr_active = False\<rparr>"
    by (simp add: getTimeRange_def)
  have 6: "\<forall>a b. truthy (q_start q) \<and> truthy (q_end q)
        \<and> dateParse rt (stringOf (q_start q)) = Some a
        \<and> dateParse rt (stringOf (q_end q)) = Some b \<and> a \<le> b \<longrightarrow>
      getTimeRange rt q = Inr \<lparr>tr_start = Some (toISOString rt a),
        tr_end = Some (toISOString rt b), tr_active = True\<rparr>"
    by (simp add: getTimeRange_def)
  have 7: "\<forall>tr n. getTimeRange rt q = Inr tr \<and> getBackendId db q = Some n \<longrightarrow>
        get_stats_rules rt db q = returned (getRuleStats db n (tr_start tr) (tr_end tr))"
    by (simp add: get_stats_rules_def Let_def)
  show ?thesis
    using 1 2 3 4 5 6 7 by (intro conjI)
qed

theorem time_range_validation_witness:
  "get_stats_summary exampleRuntime exampleStore exampleCache startOnlyQuery =
     Response 400 (ErrorBody ''Both start and end must be provided together'')
   \<and> get_stats_proxies exampleRuntime exampleStore exampleCache malformedQuery =
     Response 400 (ErrorBody ''Invalid time range format, expected ISO datetime'')
   \<and> get_stats_rules exampleRuntime exampleStore reversedQuery =
     Response 400 (ErrorBody ''start must be less than or equal to end'')
   \<and> getTimeRange exampleRuntime openQuery =
     Inr \<lparr>tr_start = None, tr_end = None, tr_active = False\<rparr>
   \<and> get_stats_rules exampleRuntime exampleStore recentQuery =
     returned (getRuleStats exampleStore (Num 1) (Some ''2024-01-01T00:00:00.000Z'')
       (Some ''2024-01-01T00:05:00.000Z''))"
proof -
  have a: "get_stats_summary exampleRuntime exampleStore exampleCache startOnlyQuery =
     Response 400 (ErrorBody ''Both start and end must be provided together'')"
    using time_range_validation [of startOnlyQuery exampleRuntime exampleStore exampleCache]
    by (simp add: startOnlyQuery_def truthy_def)
  have b: "get_stats_proxies exampleRuntime exampleStore exampleCache malformedQuery =
     Response 400 (ErrorBody ''Invalid time range format, expected ISO datetime'')"
    using time_range_validation [of malformedQuery exampleRuntime exampleStore exampleCache]
    by (simp add: malformedQuery_def truthy_def stringOf_def example_parse)
  have c: "get_stats_rules exampleRuntime exampleStore reversedQuery =
     Response 400 (ErrorBody ''start must be less than or equal to end'')"
    using time_range_validation [of reversedQuery exampleRuntime exampleStore exampleCache]
    by (simp add: reversedQuery_def truthy_def stringOf_def example_parse)
  have d: "getTimeRange exampleRuntime openQuery =
     Inr \<lparr>tr_start = None, tr_end = None, tr_active = False\<rparr>"
    using time_range_validation [of openQuery exampleRuntime exampleStore exampleCache]
    by (simp add: openQuery_def truthy_def)
  have e: "get_stats_rules exampleRuntime exampleStore recentQuery =
     returned (getRuleStats exampleStore (Num 1) (Some ''2024-01-01T00:00:00.000Z'')
       (Some ''2024-01-01T00:05:00.000Z''))"
    using time_range_validation [of recentQuery exampleRuntime exampleStore exampleCache]
      getBackendId_example(1) [of exampleStore]
    by (simp add: recentQuery_def truthy_def stringOf_def example_parse example_print)
  show ?thesis using a b c d e by simp
qed

theorem time_range_counterexample:
  "\<not> isoDateTime ''1'' \<and> \<not> isoDateTime ''2'' \<and> isoDateTime ''2001-01-01T00:00:00.000Z''
   \<and> getTimeRange legacyRuntime legacyQuery =
       Inr \<lparr>tr_start = Some ''2001-01-01T00:00:00.000Z'',
            tr_end = Some ''2001-02-01T00:00:00.000Z'', tr_active = True\<rparr>
   \<and> get_stats_rules legacyRuntime exampleStore legacyQuery = returned exampleRows"
proof -
  have iso: "\<not> isoDateTime ''1''" "\<not> isoDateTime ''2''"
    by (rule not_iso)+
  have ok: "isoDateTime ''2001-01-01T00:00:00.000Z''"
    by (rule iso_example)
  have tr: "getTimeRange legacyRuntime legacyQuery =
       Inr \<lparr>tr_start = Some ''2001-01-01T00:00:00.000Z'',
            tr_end = Some ''2001-02-01T00:00:00.000Z'', tr_active = True\<rparr>"
    by (simp add: getTimeRange_def legacyRuntime_def legacyDates_def legacyQuery_def truthy_def
        stringOf_def)
  have id: "getBackendId exampleStore legacyQuery = Some (Num 1)"
    by (simp add: getBackendId_def legacyQuery_def truthy_def stringOf_def parse_1)
  have "get_stats_rules legacyRuntime exampleStore legacyQuery = returned exampleRows"
    using tr id by (simp add: get_stats_rules_def) (simp add: getRuleStats_def exampleStore_def)
  then show ?thesis using iso ok tr by simp
qed

text \<open>
  C3. For a \<open>GET /api/stats/summary\<close> request with a valid window and a known backend:
  when the end of the window is within the tolerance of now, \<open>totalDownload\<close>,
  \<open>totalUpload\<close> and \<open>totalConnections\<close> are the Store's windowed totals plus the
  pending totals of the Realtime Cache for that backend, and otherwise they are the
  Store's totals alone; \<open>hourlyStats\<close> is the Store's hourly query for 24 buckets. In
  every summary reply \<open>topDomains\<close> and \<open>topIPs\<close> have at most 10 entries and
  \<open>hourlyStats\<close> at most 24.
\<close>

theorem summary_overlay:
  assumes "truthy (q_start q)" "truthy (q_end q)"
    and "dateParse rt (stringOf (q_start q)) = Some startMs"
    and "dateParse rt (stringOf (q_end q)) = Some endMs"
    and "startMs \<le> endMs"
    and "toISOString rt endMs \<noteq> []"
    and "dateParse rt (toISOString rt endMs) = Some endMs"
    and "getBackendId db q = Some n" "getBackend db n = Some b"
  shows "(\<exists>r. get_stats_summary rt db cache q = returned r
      \<and> (let s = getSummary db n (Some (toISOString rt startMs)) (Some (toISOString rt endMs))
         in if dateNow rt - specTolerance (envTolerance rt) \<le> endMs
            then r_totalDownload r = totalDownload s + pendingDownload (cache n)
               \<and> r_totalUpload r = totalUpload s + pendingUpload (cache n)
               \<and> r_totalConnections r = totalConnections s + pendingConnections (cache n)
            else r_totalDownload r = totalDownload s
               \<and> r_totalUpload r = totalUpload s
               \<and> r_totalConnections r = totalConnections s)
      \<and> r_hourlyStats r =
          getHourlyStats db n 24 (Some (toISOString rt startMs)) (Some (toISOString rt endMs)))
    \<and> (\<forall>q' r. payload (get_stats_summary rt db cache q') = JsonBody r \<longrightarrow>
          length (r_topDomains r) \<le> 10 \<and> length (r_topIPs r) \<le> 10
          \<and> length (r_hourlyStats r) \<le> 24)"
proof -
  let ?tr = "\<lparr>tr_start = Some (toISOString rt startMs),
           tr_end = Some (toISOString rt endMs), tr_active = True\<rparr>"
  have tr: "getTimeRange rt q = Inr ?tr"
    using assms(1-5) by (rule getTimeRange_valid)
  have inc: "shouldIncludeRealtime rt ?tr \<longleftrightarrow> dateNow rt - specTolerance (envTolerance rt) \<le> endMs"
    using assms(6,7) by (intro shouldIncludeRealtime_active) simp_all
  obtain r where r: "get_stats_summary rt db cache q = returned r"
    and d: "r_totalDownload r = totalDownload (if shouldIncludeRealtime rt ?tr
          then applySummaryDelta cache n (getSummary db n (tr_start ?tr) (tr_end ?tr))
          else getSummary db n (tr_start ?tr) (tr_end ?tr))"
    and u: "r_totalUpload r = totalUpload (if shouldIncludeRealtime rt ?tr
          then applySummaryDelta cache n (getSummary db n (tr_start ?tr) (tr_end ?tr))
          else getSummary db n (tr_start ?tr) (tr_end ?tr))"
    and c: "r_totalConnections r = totalConnections (if shouldIncludeRealtime rt ?tr
          then applySummaryDelta cache n (getSummary db n (tr_start ?tr) (tr_end ?tr))
          else getSummary db n (tr_start ?tr) (tr_end ?tr))"
    and h: "r_hourlyStats r = getHourlyStats db n 24 (tr_start ?tr) (tr_end ?tr)"
    using summary_success [OF tr assms(8,9), of cache] by blast
  have "let s = getSummary db n (Some (toISOString rt startMs)) (Some (toISOString rt endMs))
         in if dateNow rt - specTolerance (envTolerance rt) \<le> endMs
            then r_totalDownload r = totalDownload s + pendingDownload (cache n)
               \<and> r_totalUpload r = totalUpload s + pendingUpload (cache n)
               \<and> r_totalConnections r = totalConnections s + pendingConnections (cache n)
            else r_totalDownload r = totalDownload s
               \<and> r_totalUpload r = totalUpload s
               \<and> r_totalConnections r = totalConnections s"
    using d u c inc by (simp add: Let_def applySummaryDelta_def)
  moreover have "r_hourlyStats r =
          getHourlyStats db n 24 (Some (toISOString rt startMs)) (Some (toISOString rt endMs))"
    using h by simp
  ultimately show ?thesis
    using r summary_limits by blast
qed

theorem summary_overlay_witness:
  "(\<exists>r. get_stats_summary exampleRuntime exampleStore exampleCache recentQuery = returned r
      \<and> r_totalDownload r = 1250 \<and> r_totalUpload r = 450 \<and> r_totalConnections r = 8)
   \<and> (\<exists>r. get_stats_summary exampleRuntime exampleStore exampleCache historicalQuery = returned r
      \<and> r_totalDownload r = 1000 \<and> r_totalUpload r = 400 \<and> r_totalConnections r = 7)"
proof -
  have tol: "specTolerance (envTolerance exampleRuntime) = 120000"
    "dateNow exampleRuntime = 1704067500000"
    by (simp_all add: specTolerance_def exampleRuntime_def)
  have sums: "getSummary exampleStore n s e =
      \<lparr>totalConnections = 7, totalUpload = 400, totalDownload = 1000,
       uniqueDomains = 2, uniqueIPs = 2\<rparr>"
    "pendingDownload (exampleCache n) = 250" "pendingUpload (exampleCache n) = 50"
    "pendingConnections (exampleCache n) = 1" for n s e
    by (simp_all add: getSummary_def exampleStore_def exampleCache_def)
  have h1: "truthy (q_start recentQuery)" "truthy (q_end recentQuery)"
    "dateParse exampleRuntime (stringOf (q_start recentQuery)) = Some 1704067200000"
    "dateParse exampleRuntime (stringOf (q_end recentQuery)) = Some 1704067500000"
    "(1704067200000 :: int) \<le> 1704067500000"
    "toISOString exampleRuntime 1704067500000 \<noteq> []"
    "dateParse exampleRuntime (toISOString exampleRuntime 1704067500000) = Some 1704067500000"
    by (simp_all add: recentQuery_def truthy_def stringOf_def exampleRuntime_def exampleDates_def)
  have h2: "truthy (q_start historicalQuery)" "truthy (q_end historicalQuery)"
    "dateParse exampleRuntime (stringOf (q_start historicalQuery)) = Some 1704066600000"
    "dateParse exampleRuntime (stringOf (q_end historicalQuery)) = Some 1704066900000"
    "(1704066600000 :: int) \<le> 1704066900000"
    "toISOString exampleRuntime 1704066900000 \<noteq> []"
    "dateParse exampleRuntime (toISOString exampleRuntime 1704066900000) = Some 1704066900000"
    by (simp_all add: historicalQuery_def truthy_def stringOf_def exampleRuntime_def
        exampleDates_def)
  have a: "\<exists>r. get_stats_summary exampleRuntime exampleStore exampleCache recentQuery = returned r
      \<and> r_totalDownload r = 1250 \<and> r_totalUpload r = 450 \<and> r_totalConnections r = 8"
    using summary_overlay [OF h1 getBackendId_example(1) getBackend_example, of exampleCache]
    by (auto simp: tol sums)
  have b: "\<exists>r. get_stats_summary exampleRuntime exampleStore exampleCache historicalQuery = returned r
      \<and> r_totalDownload r = 1000 \<and> r_totalUpload r = 400 \<and> r_totalConnections r = 7"
    using summary_overlay [OF h2 getBackendId_example(2) getBackend_example, of exampleCache]
    by (auto simp: tol sums)
  show ?thesis using a b by simp
qed

text \<open>
  C4, as amended. The backend id is the \<open>backendId\<close> parameter when it is present and
  parses to a number, and the id of the active backend when the parameter is absent; a
  parameter that does not parse, or no parameter and no active backend, yields no id. With
  no id a stats route replies 404 with an error body when the time range passes its
  validation; when the time range fails it, the reply is the 400 of that validation.
\<close>

theorem backend_resolution:
  "(\<forall>n. truthy (q_backendId q) \<and> parseInt (stringOf (q_backendId q)) 0 = n \<and> \<not> isNaN n \<longrightarrow>
      getBackendId db q = Some n)
   \<and> (truthy (q_backendId q) \<and> isNaN (parseInt (stringOf (q_backendId q)) 0) \<longrightarrow>
      getBackendId db q = None)
   \<and> (\<forall>b. \<not> truthy (q_backendId q) \<and> getActiveBackend db = Some b \<longrightarrow>
      getBackendId db q = Some (Num (b_id b)))
   \<and> (\<not> truthy (q_backendId q) \<and> getActiveBackend db = None \<longrightarrow> getBackendId db q = None)
   \<and> (\<forall>tr. getBackendId db q = None \<and> getTimeRange rt q = Inr tr \<longrightarrow>
        get_stats_summary rt db cache q = Response 404 (ErrorBody ''No backend specified or active'')
        \<and> get_stats_proxies rt db cache q = Response 404 (ErrorBody ''No backend specified or active'')
        \<and> get_stats_rules rt db q = Response 404 (ErrorBody ''No backend specified or active''))
   \<and> (\<forall>sent. getBackendId db q = None \<and> getTimeRange rt q = Inl sent \<longrightarrow>
        get_stats_summary rt db cache q = Response 400 (ErrorBody (snd sent))
        \<and> get_stats_proxies rt db cache q = Response 400 (ErrorBody (snd sent))
        \<and> get_stats_rules rt db q = Response 400 (ErrorBody (snd sent)))"
proof -
  have 1: "\<forall>n. truthy (q_backendId q) \<and> parseInt (stringOf (q_backendId q)) 0 = n \<and> \<not> isNaN n \<longrightarrow>
      getBackendId db q = Some n"
    by (simp add: getBackendId_def Let_def)
  have 2: "truthy (q_backendId q) \<and> isNaN (parseInt (stringOf (q_backendId q)) 0) \<longrightarrow>
      getBackendId db q = None"
    by (simp add: getBackendId_def Let_def)
  have 3: "\<forall>b. \<not> truthy (q_backendId q) \<and> getActiveBackend db = Some b \<longrightarrow>
      getBackendId db q = Some (Num (b_id b))"
    by (simp add: getBackendId_def)
  have 4: "\<not> truthy (q_backendId q) \<and> getActiveBackend db = None \<longrightarrow> getBackendId db q = None"
    by (simp add: getBackendId_def)
  have 5: "\<forall>tr. getBackendId db q = None \<and> getTimeRange rt q = Inr tr \<longrightarrow>
        get_stats_summary rt db cache q = Response 404 (ErrorBody ''No backend specified or active'')
        \<and> get_stats_proxies rt db cache q = Response 404 (ErrorBody ''No backend specified or active'')
        \<and> get_stats_rules rt db q = Response 404 (ErrorBody ''No backend specified or active'')"
    by (simp add: get_stats_summary_def get_stats_proxies_def get_stats_rules_def
        sendError_def Let_def)
  have 6: "\<forall>sent. getBackendId db q = None \<and> getTimeRange rt q = Inl sent \<longrightarrow>
        get_stats_summary rt db cache q = Response 400 (ErrorBody (snd sent))
        \<and> get_stats_proxies rt db cache q = Response 400 (ErrorBody (snd sent))
        \<and> get_stats_rules rt db q = Response 400 (ErrorBody (snd sent))"
    using routes_after_rejection by blast
  show ?thesis
    using 1 2 3 4 5 6 by (intro conjI)
qed

theorem backend_resolution_witness:
  "getBackendId emptyStore recentQuery = Some (Num 1)
   \<and> getBackendId exampleStore (openQuery\<lparr>q_backendId := Some ''abc''\<rparr>) = None
   \<and> getBackendId exampleStore (openQuery\<lparr>q_backendId := None\<rparr>) = Some (Num 1)
   \<and> get_stats_summary exampleRuntime emptyStore exampleCache (openQuery\<lparr>q_backendId := None\<rparr>) =
       Response 404 (ErrorBody ''No backend specified or active'')
   \<and> get_stats_proxies exampleRuntime emptyStore exampleCache startOnlyQuery =
       Response 400 (ErrorBody ''Both start and end must be provided together'')"
proof -
  have nan: "parseInt ''abc'' 0 = NaN"
    by (simp add: parseInt_eval isWhiteSpace_def)
  have a: "getBackendId emptyStore recentQuery = Some (Num 1)"
    using backend_resolution [of recentQuery emptyStore exampleRuntime exampleCache]
    by (simp add: recentQuery_def truthy_def stringOf_def parse_1)
  have b: "getBackendId exampleStore (openQuery\<lparr>q_backendId := Some ''abc''\<rparr>) = None"
    using backend_resolution [of "openQuery\<lparr>q_backendId := Some ''abc''\<rparr>" exampleStore
        exampleRuntime exampleCache]
    by (simp add: truthy_def stringOf_def nan)
  have c: "getBackendId exampleStore (openQuery\<lparr>q_backendId := None\<rparr>) = Some (Num 1)"
    using backend_resolution [of "openQuery\<lparr>q_backendId := None\<rparr>" exampleStore
        exampleRuntime exampleCache]
    by (simp add: truthy_def getActiveBackend_example exampleBackend_def)
  have none: "getBackendId emptyStore (openQuery\<lparr>q_backendId := None\<rparr>) = None"
    "getBackendId emptyStore startOnlyQuery = None"
    by (simp_all add: getBackendId_def truthy_def getActiveBackend_example startOnlyQuery_def)
  have tr: "getTimeRange exampleRuntime (openQuery\<lparr>q_backendId := None\<rparr>) =
      Inr \<lparr>tr_start = None, tr_end = None, tr_active = False\<rparr>"
    by (simp add: getTimeRange_def openQuery_def truthy_def)
  have d: "get_stats_summary exampleRuntime emptyStore exampleCache (openQuery\<lparr>q_backendId := None\<rparr>) =
       Response 404 (ErrorBody ''No backend specified or active'')"
    using backend_resolution [of "openQuery\<lparr>q_backendId := None\<rparr>" emptyStore
        exampleRuntime exampleCache] none(1) tr
    by simp
  have rej: "getTimeRange exampleRuntime startOnlyQuery =
      Inl (400, ''Both start and end must be provided together'')"
    by (simp add: getTimeRange_def startOnlyQuery_def truthy_def)
  have e: "get_stats_proxies exampleRuntime emptyStore exampleCache startOnlyQuery =
       Response 400 (ErrorBody ''Both start and end must be provided together'')"
    using backend_resolution [of startOnlyQuery emptyStore exampleRuntime exampleCache]
      none(2) rej
    by simp
  show ?thesis using a b c d e by simp
qed

theorem backend_resolution_counterexample:
  "q_backendId startOnlyQuery = None \<and> getActiveBackend emptyStore = None
   \<and> getBackendId emptyStore startOnlyQuery = None
   \<and> get_stats_summary exampleRuntime emptyStore exampleCache startOnlyQuery =
       Response 400 (ErrorBody ''Both start and end must be provided together'')"
  by (simp add: get_stats_summary_def getBackendId_def getTimeRange_def startOnlyQuery_def
      truthy_def getActiveBackend_example sendError_def)

text \<open>
  C5. Two failures that the routes answer with status 200: \<open>GET /api/backends/active\<close>
  without an active backend, and \<open>POST /api/db/cleanup\<close> with a negative or missing
  \<open>days\<close>. Both bodies are \<open>{error: message}\<close>.
\<close>

theorem failures_with_status_200:
  "get_backends_active emptyStore = Response 200 (ErrorBody ''No active backend configured'')
   \<and> fst (post_db_cleanup cleanupOldData clearBackend db cache
            \<lparr>d_days = Some (- 1), d_backendId = None\<rparr>) =
       Response 200 (ErrorBody ''Valid days parameter required'')
   \<and> fst (post_db_cleanup cleanupOldData clearBackend db cache
            \<lparr>d_days = None, d_backendId = None\<rparr>) =
       Response 200 (ErrorBody ''Valid days parameter required'')"
  by (simp add: get_backends_active_def post_db_cleanup_def getActiveBackend_def
      emptyStore_def exampleStore_def)

text \<open>
  C6, as amended. \<open>POST /api/backends\<close> without a name or a URL replies 400 and creates
  nothing. With both: a name equal to the name of an existing backend replies 409 with an
  error body and creates nothing; otherwise the backend is created, it becomes the active
  backend when no backend existed before, and the active backend is unchanged when one
  did.
\<close>

theorem create_backend:
  "(\<not> truthy (c_name body) \<or> \<not> truthy (c_url body) \<longrightarrow>
      post_backends db body = (Response 400 (ErrorBody ''Name and URL are required''), db))
   \<and> (truthy (c_name body) \<and> truthy (c_url body)
        \<and> stringOf (c_name body) \<in> set (map b_name (backendRows db)) \<longrightarrow>
      post_backends db body = (Response 409 (ErrorBody ''Backend name already exists''), db))
   \<and> (truthy (c_name body) \<and> truthy (c_url body)
        \<and> stringOf (c_name body) \<notin> set (map b_name (backendRows db))
        \<and> backendRows db = [] \<longrightarrow>
      (\<exists>db' b. post_backends db body =
           (returned \<lparr>n_id = nextBackendId db, n_isActive = True,
                      n_message = ''Backend created successfully''\<rparr>, db')
         \<and> backendRows db' = [b]
         \<and> getActiveBackend db' = Some b
         \<and> b_id b = nextBackendId db \<and> b_name b = stringOf (c_name body)
         \<and> b_url b = stringOf (c_url body) \<and> b_token b = c_token body))
   \<and> (truthy (c_name body) \<and> truthy (c_url body)
        \<and> stringOf (c_name body) \<notin> set (map b_name (backendRows db))
        \<and> backendRows db \<noteq> [] \<longrightarrow>
      (\<exists>db' b. post_backends db body =
           (returned \<lparr>n_id = nextBackendId db, n_isActive = False,
                      n_message = ''Backend created successfully''\<rparr>, db')
         \<and> backendRows db' = backendRows db @ [b]
         \<and> getActiveBackend db' = getActiveBackend db
         \<and> b_id b = nextBackendId db \<and> b_name b = stringOf (c_name body)
         \<and> b_url b = stringOf (c_url body) \<and> b_token b = c_token body))"
proof -
  have 1: "\<not> truthy (c_name body) \<or> \<not> truthy (c_url body) \<longrightarrow>
      post_backends db body = (Response 400 (ErrorBody ''Name and URL are required''), db)"
    by (auto simp: post_backends_def sendError_def)
  have 2: "truthy (c_name body) \<and> truthy (c_url body)
        \<and> stringOf (c_name body) \<in> set (map b_name (backendRows db)) \<longrightarrow>
      post_backends db body = (Response 409 (ErrorBody ''Backend name already exists''), db)"
    using includes_uniqueViolation
    by (simp add: post_backends_def createBackend_def sendError_def Let_def)
  have 3: "truthy (c_name body) \<and> truthy (c_url body)
        \<and> stringOf (c_name body) \<notin> set (map b_name (backendRows db))
        \<and> backendRows db = [] \<longrightarrow>
      (\<exists>db' b. post_backends db body =
           (returned \<lparr>n_id = nextBackendId db, n_isActive = True,
                      n_message = ''Backend created successfully''\<rparr>, db')
         \<and> backendRows db' = [b]
         \<and> getActiveBackend db' = Some b
         \<and> b_id b = nextBackendId db \<and> b_name b = stringOf (c_name body)
         \<and> b_url b = stringOf (c_url body) \<and> b_token b = c_token body)"
    by (simp add: post_backends_def createBackend_def Let_def getAllBackends_def
        setActiveBackend_def getActiveBackend_def)
  have 4: "truthy (c_name body) \<and> truthy (c_url body)
        \<and> stringOf (c_name body) \<notin> set (map b_name (backendRows db))
        \<and> backendRows db \<noteq> [] \<longrightarrow>
      (\<exists>db' b. post_backends db body =
           (returned \<lparr>n_id = nextBackendId db, n_isActive = False,
                      n_message = ''Backend created successfully''\<rparr>, db')
         \<and> backendRows db' = backendRows db @ [b]
         \<and> getActiveBackend db' = getActiveBackend db
         \<and> b_id b = nextBackendId db \<and> b_name b = stringOf (c_name body)
         \<and> b_url b = stringOf (c_url body) \<and> b_token b = c_token body)"
    by (simp add: post_backends_def createBackend_def Let_def getAllBackends_def
        getActiveBackend_def find_append_inactive)
  show ?thesis
    using 1 2 3 4 by (intro conjI)
qed

theorem create_backend_witness:
  "post_backends exampleStore \<lparr>c_name = Some ''b'', c_url = Some ''ws://other:9090'', c_token = None\<rparr> =
     (Response 409 (ErrorBody ''Backend name already exists''), exampleStore)
   \<and> (\<exists>db'. post_backends emptyStore
          \<lparr>c_name = Some ''b'', c_url = Some ''ws://router:9090'', c_token = None\<rparr> =
        (returned \<lparr>n_id = 1, n_isActive = True, n_message = ''Backend created successfully''\<rparr>, db')
      \<and> map_option b_name (getActiveBackend db') = Some ''b'')
   \<and> (\<exists>db'. post_backends exampleStore
          \<lparr>c_name = Some ''c'', c_url = Some ''ws://other:9090'', c_token = None\<rparr> =
        (returned \<lparr>n_id = 2, n_isActive = False, n_message = ''Backend created successfully''\<rparr>, db')
      \<and> getActiveBackend db' = Some exampleBackend)
   \<and> post_backends exampleStore \<lparr>c_name = None, c_url = Some ''ws://other:9090'', c_token = None\<rparr> =
     (Response 400 (ErrorBody ''Name and URL are required''), exampleStore)"
proof -
  have rows: "backendRows exampleStore = [exampleBackend]" "backendRows emptyStore = []"
    "nextBackendId exampleStore = 2" "nextBackendId emptyStore = 1"
    "b_name exampleBackend = ''b''"
    by (simp_all add: exampleStore_def emptyStore_def exampleBackend_def)
  have a: "post_backends exampleStore
      \<lparr>c_name = Some ''b'', c_url = Some ''ws://other:9090'', c_token = None\<rparr> =
     (Response 409 (ErrorBody ''Backend name already exists''), exampleStore)"
    using create_backend [of "\<lparr>c_name = Some ''b'', c_url = Some ''ws://other:9090'',
        c_token = None\<rparr>" exampleStore]
    by (simp add: truthy_def stringOf_def rows)
  have b: "\<exists>db'. post_backends emptyStore
          \<lparr>c_name = Some ''b'', c_url = Some ''ws://router:9090'', c_token = None\<rparr> =
        (returned \<lparr>n_id = 1, n_isActive = True, n_message = ''Backend created successfully''\<rparr>, db')
      \<and> map_option b_name (getActiveBackend db') = Some ''b''"
    using create_backend [of "\<lparr>c_name = Some ''b'', c_url = Some ''ws://router:9090'',
        c_token = None\<rparr>" emptyStore]
    by (auto simp: truthy_def stringOf_def rows)
  have c: "\<exists>db'. post_backends exampleStore
          \<lparr>c_name = Some ''c'', c_url = Some ''ws://other:9090'', c_token = None\<rparr> =
        (returned \<lparr>n_id = 2, n_isActive = False, n_message = ''Backend created successfully''\<rparr>, db')
      \<and> getActiveBackend db' = Some exampleBackend"
    using create_backend [of "\<lparr>c_name = Some ''c'', c_url = Some ''ws://other:9090'',
        c_token = None\<rparr>" exampleStore] getActiveBackend_example(2)
    by (auto simp: truthy_def stringOf_def rows)
  have d: "post_backends exampleStore
      \<lparr>c_name = None, c_url = Some ''ws://other:9090'', c_token = None\<rparr> =
     (Response 400 (ErrorBody ''Name and URL are required''), exampleStore)"
    using create_backend [of "\<lparr>c_name = None, c_url = Some ''ws://other:9090'',
        c_token = None\<rparr>" exampleStore]
    by (simp add: truthy_def)
  show ?thesis using a b c d by blast
qed

theorem create_backend_counterexample:
  "''b'' \<in> set (map b_name (backendRows exampleStore))
   \<and> post_backends exampleStore \<lparr>c_name = Some ''b'', c_url = Some [], c_token = None\<rparr> =
     (Response 400 (ErrorBody ''Name and URL are required''), exampleStore)"
  by (simp add: post_backends_def truthy_def sendError_def exampleStore_def exampleBackend_def)

text \<open>
  C7. Every backend in the replies of \<open>GET /api/backends\<close>, \<open>/api/backends/active\<close> and
  \<open>/api/backends/listening\<close> has no \<open>token\<close> field and has \<open>hasToken\<close>, true exactly
  when the stored token is present and not empty; two Stores whose backend rows agree on
  everything but the tokens, and on which tokens are non-empty, get the same replies.
\<close>

theorem backend_tokens_elided:
  "(\<forall>objs obj. payload (get_backends db) = JsonBody objs \<and> obj \<in> set objs \<longrightarrow>
      map_of obj ''token'' = None
      \<and> (\<exists>b \<in> set (getAllBackends db). obj = elideToken (toObject b)
            \<and> map_of obj ''hasToken'' = Some (JBool (truthy (b_token b)))))
   \<and> (\<forall>objs obj. payload (get_backends_listening db) = JsonBody objs \<and> obj \<in> set objs \<longrightarrow>
      map_of obj ''token'' = None
      \<and> (\<exists>b \<in> set (getListeningBackends db). obj = elideToken (toObject b)
            \<and> map_of obj ''hasToken'' = Some (JBool (truthy (b_token b)))))
   \<and> (\<forall>obj. payload (get_backends_active db) = JsonBody obj \<longrightarrow>
      map_of obj ''token'' = None
      \<and> (\<exists>b. getActiveBackend db = Some b \<and> obj = elideToken (toObject b)
            \<and> map_of obj ''hasToken'' = Some (JBool (truthy (b_token b)))))
   \<and> (\<forall>db'. map tokenBlind (backendRows db) = map tokenBlind (backendRows db') \<longrightarrow>
      get_backends db = get_backends db'
      \<and> get_backends_listening db = get_backends_listening db'
      \<and> get_backends_active db = get_backends_active db')"
proof -
  have 1: "\<forall>objs obj. payload (get_backends db) = JsonBody objs \<and> obj \<in> set objs \<longrightarrow>
      map_of obj ''token'' = None
      \<and> (\<exists>b \<in> set (getAllBackends db). obj = elideToken (toObject b)
            \<and> map_of obj ''hasToken'' = Some (JBool (truthy (b_token b))))"
    using view_facts by (auto simp: get_backends_def returned_def)
  have 2: "\<forall>objs obj. payload (get_backends_listening db) = JsonBody objs \<and> obj \<in> set objs \<longrightarrow>
      map_of obj ''token'' = None
      \<and> (\<exists>b \<in> set (getListeningBackends db). obj = elideToken (toObject b)
            \<and> map_of obj ''hasToken'' = Some (JBool (truthy (b_token b))))"
    using view_facts by (auto simp: get_backends_listening_def returned_def)
  have 3: "\<forall>obj. payload (get_backends_active db) = JsonBody obj \<longrightarrow>
      map_of obj ''token'' = None
      \<and> (\<exists>b. getActiveBackend db = Some b \<and> obj = elideToken (toObject b)
            \<and> map_of obj ''hasToken'' = Some (JBool (truthy (b_token b))))"
    using view_facts
    by (auto simp: get_backends_active_def returned_def split: option.splits)
  have 4: "\<forall>db'. map tokenBlind (backendRows db) = map tokenBlind (backendRows db') \<longrightarrow>
      get_backends db = get_backends db'
      \<and> get_backends_listening db = get_backends_listening db'
      \<and> get_backends_active db = get_backends_active db'"
    using routes_tokenBlind by blast
  show ?thesis
    using 1 2 3 4 by (intro conjI)
qed

theorem backend_tokens_elided_witness:
  "map_of (elideToken (toObject exampleBackend)) ''token'' = None
   \<and> map_of (elideToken (toObject exampleBackend)) ''hasToken'' = Some (JBool True)
   \<and> get_backends otherTokenStore = get_backends exampleStore
   \<and> get_backends_listening otherTokenStore = get_backends_listening exampleStore
   \<and> get_backends_active otherTokenStore = get_backends_active exampleStore"
proof -
  have p: "payload (get_backends exampleStore) = JsonBody [elideToken (toObject exampleBackend)]"
    by (simp add: get_backends_def getAllBackends_def returned_def exampleStore_def)
  have all: "getAllBackends exampleStore = [exampleBackend]"
    by (simp add: getAllBackends_def exampleStore_def)
  have tok: "truthy (b_token exampleBackend)"
    by (simp add: truthy_def exampleBackend_def)
  have "map_of (elideToken (toObject exampleBackend)) ''token'' = None
      \<and> (\<exists>b \<in> set (getAllBackends exampleStore).
            elideToken (toObject exampleBackend) = elideToken (toObject b)
            \<and> map_of (elideToken (toObject exampleBackend)) ''hasToken'' =
                Some (JBool (truthy (b_token b))))"
    using backend_tokens_elided [of exampleStore, THEN conjunct1, rule_format,
        of "[elideToken (toObject exampleBackend)]" "elideToken (toObject exampleBackend)"] p
    by simp
  then have a: "map_of (elideToken (toObject exampleBackend)) ''token'' = None
      \<and> map_of (elideToken (toObject exampleBackend)) ''hasToken'' = Some (JBool True)"
    using all tok by simp
  have blind: "map tokenBlind (backendRows exampleStore) = map tokenBlind (backendRows otherTokenStore)"
    by (simp add: otherTokenStore_def exampleStore_def exampleBackend_def tokenBlind_def
        truthy_def)
  have b: "get_backends otherTokenStore = get_backends exampleStore
      \<and> get_backends_listening otherTokenStore = get_backends_listening exampleStore
      \<and> get_backends_active otherTokenStore = get_backends_active exampleStore"
    using backend_tokens_elided [of exampleStore, THEN conjunct2, THEN conjunct2,
        THEN conjunct2, rule_format, OF blind]
    by simp
  show ?thesis using a b by simp
qed

text \<open>
  C8. \<open>PUT /api/db/retention\<close> replies 400 and leaves the Store as it is when a supplied
  \<open>connectionLogsDays\<close> is outside \<open>[1, 90]\<close> or a supplied \<open>hourlyStatsDays\<close> is
  outside \<open>[7, 365]\<close>; when every supplied field is within its bounds the configuration
  is updated with the supplied fields, the others keep their values, and the new
  configuration is returned.
\<close>

theorem retention_bounds:
  "(\<forall>d. u_connectionLogsDays body = Some d \<and> (d < 1 \<or> 90 < d) \<longrightarrow>
      put_db_retention db body =
        (Response 400 (ErrorBody ''connectionLogsDays must be between 1 and 90''), db))
   \<and> (\<forall>d. u_hourlyStatsDays body = Some d \<and> (d < 7 \<or> 365 < d) \<longrightarrow>
      (\<exists>m. put_db_retention db body = (Response 400 (ErrorBody m), db)))
   \<and> ((\<forall>d. u_connectionLogsDays body = Some d \<longrightarrow> 1 \<le> d \<and> d \<le> 90)
       \<and> (\<forall>d. u_hourlyStatsDays body = Some d \<longrightarrow> 7 \<le> d \<and> d \<le> 365) \<longrightarrow>
      (\<exists>cfg db'. put_db_retention db body =
           (returned \<lparr>t_message = ''Retention configuration updated'', t_config = cfg\<rparr>, db')
         \<and> retentionRow db' = cfg
         \<and> backendRows db' = backendRows db
         \<and> connectionLogsDays cfg =
             (case u_connectionLogsDays body of
                None \<Rightarrow> connectionLogsDays (retentionRow db) | Some d \<Rightarrow> d)
         \<and> hourlyStatsDays cfg =
             (case u_hourlyStatsDays body of
                None \<Rightarrow> hourlyStatsDays (retentionRow db) | Some d \<Rightarrow> d)
         \<and> autoCleanup cfg =
             (case u_autoCleanup body of
                None \<Rightarrow> autoCleanup (retentionRow db) | Some a \<Rightarrow> a)))"
proof -
  have 1: "\<forall>d. u_connectionLogsDays body = Some d \<and> (d < 1 \<or> 90 < d) \<longrightarrow>
      put_db_retention db body =
        (Response 400 (ErrorBody ''connectionLogsDays must be between 1 and 90''), db)"
    by (simp add: put_db_retention_def sendError_def)
  have 2: "\<forall>d. u_hourlyStatsDays body = Some d \<and> (d < 7 \<or> 365 < d) \<longrightarrow>
      (\<exists>m. put_db_retention db body = (Response 400 (ErrorBody m), db))"
    by (auto simp: put_db_retention_def sendError_def split: option.splits)
  have 3: "(\<forall>d. u_connectionLogsDays body = Some d \<longrightarrow> 1 \<le> d \<and> d \<le> 90)
       \<and> (\<forall>d. u_hourlyStatsDays body = Some d \<longrightarrow> 7 \<le> d \<and> d \<le> 365) \<longrightarrow>
      (\<exists>cfg db'. put_db_retention db body =
           (returned \<lparr>t_message = ''Retention configuration updated'', t_config = cfg\<rparr>, db')
         \<and> retentionRow db' = cfg
         \<and> backendRows db' = backendRows db
         \<and> connectionLogsDays cfg =
             (case u_connectionLogsDays body of
                None \<Rightarrow> connectionLogsDays (retentionRow db) | Some d \<Rightarrow> d)
         \<and> hourlyStatsDays cfg =
             (case u_hourlyStatsDays body of
                None \<Rightarrow> hourlyStatsDays (retentionRow db) | Some d \<Rightarrow> d)
         \<and> autoCleanup cfg =
             (case u_autoCleanup body of
                None \<Rightarrow> autoCleanup (retentionRow db) | Some a \<Rightarrow> a))"
  proof
    assume h: "(\<forall>d. u_connectionLogsDays body = Some d \<longrightarrow> 1 \<le> d \<and> d \<le> 90)
       \<and> (\<forall>d. u_hourlyStatsDays body = Some d \<longrightarrow> 7 \<le> d \<and> d \<le> 365)"
    have a: "\<not> (case u_connectionLogsDays body of None \<Rightarrow> False | Some d \<Rightarrow> d < 1 \<or> d > 90)"
      using h by (auto split: option.splits)
    have b: "\<not> (case u_hourlyStatsDays body of None \<Rightarrow> False | Some d \<Rightarrow> d < 7 \<or> d > 365)"
      using h by (auto split: option.splits)
    show "\<exists>cfg db'. put_db_retention db body =
           (returned \<lparr>t_message = ''Retention configuration updated'', t_config = cfg\<rparr>, db')
         \<and> retentionRow db' = cfg
         \<and> backendRows db' = backendRows db
         \<and> connectionLogsDays cfg =
             (case u_connectionLogsDays body of
                None \<Rightarrow> connectionLogsDays (retentionRow db) | Some d \<Rightarrow> d)
         \<and> hourlyStatsDays cfg =
             (case u_hourlyStatsDays body of
                None \<Rightarrow> hourlyStatsDays (retentionRow db) | Some d \<Rightarrow> d)
         \<and> autoCleanup cfg =
             (case u_autoCleanup body of
                None \<Rightarrow> autoCleanup (retentionRow db) | Some a \<Rightarrow> a)"
      using a b by (simp add: put_db_retention_def updateRetentionConfig_def Let_def)
  qed
  show ?thesis
    using 1 2 3 by (intro conjI)
qed

theorem retention_bounds_witness:
  "put_db_retention exampleStore
      \<lparr>u_connectionLogsDays = Some 91, u_hourlyStatsDays = None, u_autoCleanup = None\<rparr> =
     (Response 400 (ErrorBody ''connectionLogsDays must be between 1 and 90''), exampleStore)
   \<and> (\<exists>m. put_db_retention exampleStore
      \<lparr>u_connectionLogsDays = None, u_hourlyStatsDays = Some 6.5, u_autoCleanup = None\<rparr> =
     (Response 400 (ErrorBody m), exampleStore))
   \<and> (\<exists>db'. put_db_retention exampleStore
      \<lparr>u_connectionLogsDays = Some 14, u_hourlyStatsDays = None, u_autoCleanup = None\<rparr> =
     (returned \<lparr>t_message = ''Retention configuration updated'',
        t_config = \<lparr>connectionLogsDays = 14, hourlyStatsDays = 30, autoCleanup = True\<rparr>\<rparr>, db')
     \<and> retentionRow db' = \<lparr>connectionLogsDays = 14, hourlyStatsDays = 30, autoCleanup = True\<rparr>)"
proof -
  have a: "put_db_retention exampleStore
      \<lparr>u_connectionLogsDays = Some 91, u_hourlyStatsDays = None, u_autoCleanup = None\<rparr> =
     (Response 400 (ErrorBody ''connectionLogsDays must be between 1 and 90''), exampleStore)"
    using retention_bounds [of "\<lparr>u_connectionLogsDays = Some 91, u_hourlyStatsDays = None,
        u_autoCleanup = None\<rparr>" exampleStore]
    by simp
  have b: "\<exists>m. put_db_retention exampleStore
      \<lparr>u_connectionLogsDays = None, u_hourlyStatsDays = Some 6.5, u_autoCleanup = None\<rparr> =
     (Response 400 (ErrorBody m), exampleStore)"
  proof -
    let ?body = "\<lparr>u_connectionLogsDays = None, u_hourlyStatsDays = Some 6.5,
        u_autoCleanup = None\<rparr>"
    have "u_hourlyStatsDays ?body = Some 6.5 \<and> ((6.5 :: real) < 7 \<or> 365 < (6.5 :: real)) \<longrightarrow>
        (\<exists>m. put_db_retention exampleStore ?body = (Response 400 (ErrorBody m), exampleStore))"
      using retention_bounds [of ?body exampleStore] by blast
    then show ?thesis by simp
  qed
  have c: "\<exists>db'. put_db_retention exampleStore
      \<lparr>u_connectionLogsDays = Some 14, u_hourlyStatsDays = None, u_autoCleanup = None\<rparr> =
     (returned \<lparr>t_message = ''Retention configuration updated'',
        t_config = \<lparr>connectionLogsDays = 14, hourlyStatsDays = 30, autoCleanup = True\<rparr>\<rparr>, db')
     \<and> retentionRow db' = \<lparr>connectionLogsDays = 14, hourlyStatsDays = 30, autoCleanup = True\<rparr>"
  proof -
    obtain cfg db' where r: "put_db_retention exampleStore
        \<lparr>u_connectionLogsDays = Some 14, u_hourlyStatsDays = None, u_autoCleanup = None\<rparr> =
           (returned \<lparr>t_message = ''Retention configuration updated'', t_config = cfg\<rparr>, db')"
      and row: "retentionRow db' = cfg"
      and f: "connectionLogsDays cfg = 14"
        "hourlyStatsDays cfg = hourlyStatsDays (retentionRow exampleStore)"
        "autoCleanup cfg = autoCleanup (retentionRow exampleStore)"
      using retention_bounds [of "\<lparr>u_connectionLogsDays = Some 14, u_hourlyStatsDays = None,
        u_autoCleanup = None\<rparr>" exampleStore]
      by auto
    have "cfg = \<lparr>connectionLogsDays = 14, hourlyStatsDays = 30, autoCleanup = True\<rparr>"
      using f by (cases cfg) (simp add: exampleStore_def)
    then show ?thesis using r row by blast
  qed
  show ?thesis using a b c by blast
qed

text \<open>
  C9, as amended. For a chain whose first element is not empty, has no \<open>>\<close> sign in it
  and neither starts nor ends with white space (any of the code units \<open>trim\<close> strips),
  \<open>getLandingProxy\<close> of the canonical chain is that first element; \<open>formatProxyName\<close>
  gives it too when the element does not start with an opening bracket and, for a chain of
  one element, does not end with a closing bracket. For the empty chain
  \<open>formatProxyName\<close> gives \<open>DIRECT\<close> and \<open>getLandingProxy\<close> the empty string.
\<close>

theorem landing_proxy_of_canonical_chain:
  assumes "c \<noteq> []" "\<not> isWhiteSpace (hd c)" "\<not> isWhiteSpace (last c)"
    and "codeUnit CHR ''>'' \<notin> set c"
  shows "getLandingProxy (canonicalChain (c # cs)) = c
       \<and> (hd c \<noteq> codeUnit CHR ''['' \<and> (cs = [] \<longrightarrow> last c \<noteq> codeUnit CHR '']'')
            \<longrightarrow> formatProxyName (canonicalChain (c # cs)) = c)
       \<and> formatProxyName (canonicalChain []) = codeUnits ''DIRECT''
       \<and> getLandingProxy (canonicalChain []) = []"
proof -
  have "formatProxyName (canonicalChain []) = codeUnits ''DIRECT''"
    by (simp add: formatProxyName_def canonicalChain_def)
  moreover have "getLandingProxy (canonicalChain []) = []"
    by (simp add: chain_eval)
  ultimately show ?thesis
    using assms getLandingProxy_first formatProxyName_first by blast
qed

theorem landing_proxy_of_canonical_chain_witness:
  "getLandingProxy (canonicalChain (map codeUnits [''HK 01'', ''Proxy'', ''Final''])) =
     codeUnits ''HK 01''
   \<and> formatProxyName (canonicalChain (map codeUnits [''HK 01'', ''Proxy'', ''Final''])) =
     codeUnits ''HK 01''
   \<and> getLandingProxy (canonicalChain [[0x9999, 0x6E2F, 0x3000, 0x30, 0x31], codeUnits ''Proxy'']) =
     [0x9999, 0x6E2F, 0x3000, 0x30, 0x31]"
proof -
  have h: "codeUnits ''HK 01'' \<noteq> []" "\<not> isWhiteSpace (hd (codeUnits ''HK 01''))"
    "\<not> isWhiteSpace (last (codeUnits ''HK 01''))"
    "codeUnit CHR ''>'' \<notin> set (codeUnits ''HK 01'')"
    by (simp_all add: isWhiteSpace_def codeUnits_def codeUnit_def)
  have b: "hd (codeUnits ''HK 01'') \<noteq> codeUnit CHR ''[''"
    by (simp add: codeUnits_def codeUnit_def)
  have k: "[0x9999, 0x6E2F, 0x3000, 0x30, 0x31 :: nat] \<noteq> []"
    "\<not> isWhiteSpace (hd [0x9999, 0x6E2F, 0x3000, 0x30, 0x31])"
    "\<not> isWhiteSpace (last [0x9999, 0x6E2F, 0x3000, 0x30, 0x31])"
    "codeUnit CHR ''>'' \<notin> set [0x9999, 0x6E2F, 0x3000, 0x30, 0x31]"
    by (simp_all add: isWhiteSpace_def codeUnit_def)
  show ?thesis
    using landing_proxy_of_canonical_chain [OF h, of "map codeUnits [''Proxy'', ''Final'']"] b
      landing_proxy_of_canonical_chain [OF k, of "[codeUnits ''Proxy'']"]
    by simp
qed

theorem landing_proxy_counterexample:
  "getLandingProxy (canonicalChain (map codeUnits [''HK->US'', ''Proxy''])) = codeUnits ''HK-''
   \<and> formatProxyName (canonicalChain (map codeUnits [''HK->US'', ''Proxy''])) = codeUnits ''HK-''
   \<and> formatProxyName (canonicalChain (map codeUnits [''[HK] 01'', ''Proxy''])) =
       codeUnits ''HK] 01''
   \<and> getLandingProxy (canonicalChain [[0xA0, 0x48, 0x4B], codeUnits ''Proxy'']) = [0x48, 0x4B]
   \<and> getLandingProxy (canonicalChain []) \<noteq> codeUnits ''DIRECT''"
  by (simp add: chain_eval)

text \<open>
  C10, as amended. On the routes that consult the overlay decision (summary, proxies,
  countries, trend and trend/aggregated), a request with neither \<open>start\<close> nor \<open>end\<close>
  always gets the realtime overlay, whatever the current time and the configured
  tolerance. \<open>GET /api/stats/rules\<close> has no overlay and returns the Store's rows.
\<close>

theorem overlay_routes_no_range:
  assumes "\<not> truthy (q_start q)" "\<not> truthy (q_end q)"
    and "getBackendId db q = Some n"
  shows "\<exists>tr. getTimeRange rt q = Inr tr \<and> tr_start tr = None \<and> tr_end tr = None
      \<and> shouldIncludeRealtime rt tr
      \<and> get_stats_proxies rt db cache q =
          returned (mergeProxyStats cache n (getProxyStats db n None None))
      \<and> get_stats_countries getCountryStats mergeCountryStats rt db q limit =
          returned (mergeCountryStats n (getCountryStats n
                      (parseInt (if truthy limit then stringOf limit else ''50'') 10) None None))
      \<and> get_stats_trend getTrafficTrend mergeTrend rt db q minutes =
          returned (mergeTrend n (getTrafficTrend n (numberParam minutes 30) None None)
                      (numberParam minutes 30) (Num 1))
      \<and> get_stats_trend_aggregated getTrafficTrendAggregated mergeTrend rt db q minutes
            bucketMinutes =
          returned (mergeTrend n (getTrafficTrendAggregated n (numberParam minutes 30)
                      (numberParam bucketMinutes 1) None None)
                      (numberParam minutes 30) (numberParam bucketMinutes 1))
      \<and> (\<forall>b. getBackend db n = Some b \<longrightarrow>
           (\<exists>r. get_stats_summary rt db cache q = returned r
              \<and> r_totalDownload r =
                  totalDownload (applySummaryDelta cache n (getSummary db n None None))
              \<and> r_totalUpload r =
                  totalUpload (applySummaryDelta cache n (getSummary db n None None))
              \<and> r_totalConnections r =
                  totalConnections (applySummaryDelta cache n (getSummary db n None None))
              \<and> r_topDomains r = mergeTopDomains cache n (getTopDomains db n 10 None None) 10
              \<and> r_topIPs r = mergeTopIPs cache n (getTopIPs db n 10 None None) 10
              \<and> r_proxyStats r = mergeProxyStats cache n (getProxyStats db n None None)
              \<and> r_todayUpload r =
                  upload (getTrafficInRange db n None None) + upload (getTodayDelta cache n)
              \<and> r_todayDownload r =
                  download (getTrafficInRange db n None None)
                  + download (getTodayDelta cache n)))
      \<and> get_stats_rules rt db q = returned (getRuleStats db n None None)"
proof -
  let ?tr = "\<lparr>tr_start = None, tr_end = None, tr_active = False\<rparr>"
  have tr: "getTimeRange rt q = Inr ?tr"
    using assms(1,2) by (rule getTimeRange_absent)
  have inc: "shouldIncludeRealtime rt ?tr = True"
    by (simp add: shouldIncludeRealtime_def)
  note routes = overlay_routes [OF tr assms(3), unfolded Let_def inc if_True, simplified]
  have summary: "\<forall>b. getBackend db n = Some b \<longrightarrow>
           (\<exists>r. get_stats_summary rt db cache q = returned r
              \<and> r_totalDownload r =
                  totalDownload (applySummaryDelta cache n (getSummary db n None None))
              \<and> r_totalUpload r =
                  totalUpload (applySummaryDelta cache n (getSummary db n None None))
              \<and> r_totalConnections r =
                  totalConnections (applySummaryDelta cache n (getSummary db n None None))
              \<and> r_topDomains r = mergeTopDomains cache n (getTopDomains db n 10 None None) 10
              \<and> r_topIPs r = mergeTopIPs cache n (getTopIPs db n 10 None None) 10
              \<and> r_proxyStats r = mergeProxyStats cache n (getProxyStats db n None None)
              \<and> r_todayUpload r =
                  upload (getTrafficInRange db n None None) + upload (getTodayDelta cache n)
              \<and> r_todayDownload r =
                  download (getTrafficInRange db n None None)
                  + download (getTodayDelta cache n))"
  proof (intro allI impI)
    fix b assume b: "getBackend db n = Some b"
    show "\<exists>r. get_stats_summary rt db cache q = returned r
              \<and> r_totalDownload r =
                  totalDownload (applySummaryDelta cache n (getSummary db n None None))
              \<and> r_totalUpload r =
                  totalUpload (applySummaryDelta cache n (getSummary db n None None))
              \<and> r_totalConnections r =
                  totalConnections (applySummaryDelta cache n (getSummary db n None None))
              \<and> r_topDomains r = mergeTopDomains cache n (getTopDomains db n 10 None None) 10
              \<and> r_topIPs r = mergeTopIPs cache n (getTopIPs db n 10 None None) 10
              \<and> r_proxyStats r = mergeProxyStats cache n (getProxyStats db n None None)
              \<and> r_todayUpload r =
                  upload (getTrafficInRange db n None None) + upload (getTodayDelta cache n)
              \<and> r_todayDownload r =
                  download (getTrafficInRange db n None None)
                  + download (getTodayDelta cache n)"
      using summary_overlay_fields [OF tr assms(3) b, of cache] inc by simp
  qed
  show ?thesis
    apply (rule exI [of _ ?tr])
    apply (intro conjI)
             apply (rule tr)
            apply simp
           apply simp
          apply (simp add: inc)
         apply (rule routes(1))
        apply (rule routes(2))
       apply (rule routes(3))
      apply (rule routes(4))
     apply (rule summary)
    apply (rule routes(5))
    done
qed

theorem overlay_routes_no_range_witness:
  "get_stats_proxies exampleRuntime exampleStore exampleCache openQuery =
     returned (mergeProxyStats exampleCache (Num 1) exampleRows)
   \<and> get_stats_trend_aggregated exampleSeriesAggregated exampleMergeTrend exampleRuntime
        exampleStore openQuery None (Some ''5'') =
     returned (exampleMergeTrend (Num 1) exampleRows (Num 30) (Num 5))"
proof -
  have h: "\<not> truthy (q_start openQuery)" "\<not> truthy (q_end openQuery)"
    by (simp_all add: openQuery_def truthy_def)
  have five: "numberParam (Some ''5'') 1 = Num 5" "numberParam None 30 = Num 30"
    by (simp_all add: numberParam_def orDefault_def parseInt_eval isWhiteSpace_def)
  have rows: "getProxyStats exampleStore n s e = exampleRows" for n s e
    by (simp add: getProxyStats_def exampleStore_def)
  obtain tr :: timeRange where a: "get_stats_proxies exampleRuntime exampleStore exampleCache openQuery =
          returned (mergeProxyStats exampleCache (Num 1)
            (getProxyStats exampleStore (Num 1) None None))"
    and b: "get_stats_trend_aggregated exampleSeriesAggregated exampleMergeTrend exampleRuntime
          exampleStore openQuery None (Some ''5'') =
          returned (exampleMergeTrend (Num 1) (exampleSeriesAggregated (Num 1)
                      (numberParam None 30) (numberParam (Some ''5'') 1) None None)
                      (numberParam None 30) (numberParam (Some ''5'') 1))"
    using overlay_routes_no_range [where q = openQuery and rt = exampleRuntime
        and db = exampleStore and cache = exampleCache
        and getTrafficTrendAggregated = exampleSeriesAggregated
        and mergeTrend = exampleMergeTrend and minutes = None and bucketMinutes = "Some ''5''"
        and n = "Num 1", OF h getBackendId_example(3)]
    by blast
  show ?thesis
    using a b by (simp add: rows five exampleSeriesAggregated_def)
qed

theorem overlay_routes_no_range_counterexample:
  "q_start openQuery = None \<and> q_end openQuery = None
   \<and> getRuleStats exampleStore (Num 1) None None = exampleRows
   \<and> get_stats_rules exampleRuntime exampleStore openQuery = returned exampleRows"
proof -
  have q: "q_start openQuery = None" "q_end openQuery = None"
    by (simp_all add: openQuery_def)
  have rows: "getRuleStats exampleStore n s e = exampleRows" for n s e
    by (simp add: getRuleStats_def exampleStore_def)
  have tr: "getTimeRange exampleRuntime openQuery =
       Inr \<lparr>tr_start = None, tr_end = None, tr_active = False\<rparr>"
    by (simp add: getTimeRange_def q truthy_def)
  have "get_stats_rules exampleRuntime exampleStore openQuery = returned exampleRows"
    using tr getBackendId_example(3) [of exampleStore]
    by (simp add: get_stats_rules_def rows)
  then show ?thesis using q rows by simp
qed

end
